theory Spec2Isabelle
  imports Complex_Main "HOL-Library.Word"
begin

section \<open>Values of the element type\<close>

text \<open>
  The functions of \<^verbatim>\<open>src/dwi/gradient.h\<close> are templates over \<^verbatim>\<open>ValueType\<close> (float or
  double). A value is modelled as an exact real number or one of the three special values
  of IEEE arithmetic, so that a division by zero and what follows from it are what the
  program computes. Rounding, overflow of finite results and the sign of zero are not
  modelled.
\<close>

datatype value_type = Num real | PosInf | NegInf | NaN

text \<open>The C library's \<^verbatim>\<open>finite()\<close>.\<close>

fun is_finite :: "value_type \<Rightarrow> bool" where
  "is_finite (Num x) = True"
| "is_finite _ = False"

text \<open>A value used as a condition (\<^verbatim>\<open>grad (i,3) ? ... : ...\<close>): true unless it is zero.\<close>

definition nonzero :: "value_type \<Rightarrow> bool" where
  "nonzero v = (v \<noteq> Num 0)"

fun fneg :: "value_type \<Rightarrow> value_type" where
  "fneg (Num x) = Num (- x)"
| "fneg PosInf = NegInf"
| "fneg NegInf = PosInf"
| "fneg NaN = NaN"

fun fadd :: "value_type \<Rightarrow> value_type \<Rightarrow> value_type" where
  "fadd (Num a) (Num b) = Num (a + b)"
| "fadd NaN _ = NaN"
| "fadd _ NaN = NaN"
| "fadd PosInf NegInf = NaN"
| "fadd NegInf PosInf = NaN"
| "fadd PosInf _ = PosInf"
| "fadd NegInf _ = NegInf"
| "fadd _ PosInf = PosInf"
| "fadd _ NegInf = NegInf"

fun fmul :: "value_type \<Rightarrow> value_type \<Rightarrow> value_type" where
  "fmul (Num a) (Num b) = Num (a * b)"
| "fmul NaN _ = NaN"
| "fmul _ NaN = NaN"
| "fmul PosInf (Num b) = (if b = 0 then NaN else if 0 < b then PosInf else NegInf)"
| "fmul NegInf (Num b) = (if b = 0 then NaN else if 0 < b then NegInf else PosInf)"
| "fmul (Num a) PosInf = (if a = 0 then NaN else if 0 < a then PosInf else NegInf)"
| "fmul (Num a) NegInf = (if a = 0 then NaN else if 0 < a then NegInf else PosInf)"
| "fmul PosInf PosInf = PosInf"
| "fmul PosInf NegInf = NegInf"
| "fmul NegInf PosInf = NegInf"
| "fmul NegInf NegInf = PosInf"

fun fdiv :: "value_type \<Rightarrow> value_type \<Rightarrow> value_type" where
  "fdiv (Num a) (Num b) =
     (if b \<noteq> 0 then Num (a / b)
      else if a = 0 then NaN else if 0 < a then PosInf else NegInf)"
| "fdiv NaN _ = NaN"
| "fdiv _ NaN = NaN"
| "fdiv (Num a) _ = Num 0"
| "fdiv PosInf (Num b) = (if 0 \<le> b then PosInf else NegInf)"
| "fdiv NegInf (Num b) = (if 0 \<le> b then NegInf else PosInf)"
| "fdiv PosInf PosInf = NaN"
| "fdiv PosInf NegInf = NaN"
| "fdiv NegInf PosInf = NaN"
| "fdiv NegInf NegInf = NaN"

fun fsqrt :: "value_type \<Rightarrow> value_type" where
  "fsqrt (Num a) = (if 0 \<le> a then Num (sqrt a) else NaN)"
| "fsqrt PosInf = PosInf"
| "fsqrt _ = NaN"

text \<open>The comparison \<^verbatim>\<open>a > b\<close>: false as soon as one side is not a number.\<close>

fun fgt :: "value_type \<Rightarrow> value_type \<Rightarrow> bool" where
  "fgt (Num a) (Num b) = (b < a)"
| "fgt NaN _ = False"
| "fgt _ NaN = False"
| "fgt PosInf PosInf = False"
| "fgt PosInf _ = True"
| "fgt NegInf _ = False"
| "fgt _ NegInf = True"
| "fgt _ PosInf = False"

text \<open>
  Modelled from the spec: \<^verbatim>\<open>Math::atan2\<close> and \<^verbatim>\<open>Math::acos\<close> (\<^verbatim>\<open>math/math.h\<close> is not among
  the sources). The spec names them "atan2(y, x)" and "acos(z / n)"; they are given the
  values of the C library's functions of these names.
\<close>

fun Math_atan2 :: "value_type \<Rightarrow> value_type \<Rightarrow> value_type" where
  "Math_atan2 (Num y) (Num x) =
     Num (if 0 < x then arctan (y / x)
          else if x < 0 then (if 0 \<le> y then arctan (y / x) + pi else arctan (y / x) - pi)
          else if 0 < y then pi / 2 else if y < 0 then - (pi / 2) else 0)"
| "Math_atan2 NaN _ = NaN"
| "Math_atan2 _ NaN = NaN"
| "Math_atan2 (Num y) PosInf = Num 0"
| "Math_atan2 (Num y) NegInf = Num (if 0 \<le> y then pi else - pi)"
| "Math_atan2 PosInf (Num x) = Num (pi / 2)"
| "Math_atan2 NegInf (Num x) = Num (- (pi / 2))"
| "Math_atan2 PosInf PosInf = Num (pi / 4)"
| "Math_atan2 PosInf NegInf = Num (3 * pi / 4)"
| "Math_atan2 NegInf PosInf = Num (- (pi / 4))"
| "Math_atan2 NegInf NegInf = Num (- (3 * pi / 4))"

fun Math_acos :: "value_type \<Rightarrow> value_type" where
  "Math_acos (Num x) = (if - 1 \<le> x \<and> x \<le> 1 then Num (arccos x) else NaN)"
| "Math_acos _ = NaN"

section \<open>Matrices\<close>

text \<open>
  A \<^verbatim>\<open>Math::Matrix\<close> has a number of columns and its rows, each a list of values. The
  number of columns is a field of its own: a matrix with no row still has one.
\<close>

record matrix =
  columns :: nat
  elems :: "value_type list list"

definition rows :: "matrix \<Rightarrow> nat" where
  "rows m = length (elems m)"

text \<open>Every row holds as many values as the matrix has columns.\<close>

definition wf_matrix :: "matrix \<Rightarrow> bool" where
  "wf_matrix m = list_all (\<lambda>r. length r = columns m) (elems m)"

text \<open>\<^verbatim>\<open>m (i,j)\<close>, read inside the matrix.\<close>

definition entry :: "matrix \<Rightarrow> nat \<Rightarrow> nat \<Rightarrow> value_type" where
  "entry m i j = elems m ! i ! j"

text \<open>\<^verbatim>\<open>m.sub (0,r,0,c)\<close>: the upper-left block of \<open>r\<close> rows and \<open>c\<close> columns.\<close>

definition sub :: "matrix \<Rightarrow> nat \<Rightarrow> nat \<Rightarrow> matrix" where
  "sub m r c = \<lparr>columns = c, elems = map (take c) (take r (elems m))\<rparr>"

text \<open>
  Modelled from the spec: \<^verbatim>\<open>Math::norm\<close> (\<^verbatim>\<open>math/vector.h\<close> is not among the sources);
  the spec gives "n = sqrt(x*x + y*y + z*z)".
\<close>

definition Math_norm :: "value_type list \<Rightarrow> value_type" where
  "Math_norm v = fsqrt (foldl fadd (Num 0) (map (\<lambda>x. fmul x x) v))"

text \<open>
  Modelled from the spec: \<^verbatim>\<open>Math::mult (C, 0.0, 1.0, CblasNoTrans, A, CblasTrans, B)\<close>
  (\<^verbatim>\<open>math/matrix.h\<close> is not among the sources). The spec reads the call as
  "scannerDir = imageDir . transformBlock^T": entry \<open>(n, j)\<close> of the product is the sum over
  \<open>k\<close> of \<open>A (n,k) * B (j,k)\<close>.
\<close>

definition dot :: "value_type list \<Rightarrow> value_type list \<Rightarrow> value_type" where
  "dot u v = foldl fadd (Num 0) (map (\<lambda>(a, b). fmul a b) (zip u v))"

definition mult_NoTrans_Trans :: "matrix \<Rightarrow> matrix \<Rightarrow> matrix" where
  "mult_NoTrans_Trans A B =
     \<lparr>columns = rows B, elems = map (\<lambda>a. map (\<lambda>b. dot a b) (elems B)) (elems A)\<rparr>"

section \<open>Machine integers\<close>

text \<open>
  A row index is a \<^verbatim>\<open>size_t\<close>; stored in a \<^verbatim>\<open>std::vector<int>\<close> it is cut to 32 bits and
  read as a signed number. An \<^verbatim>\<open>int\<close> converted to \<^verbatim>\<open>size_t\<close> is taken modulo \<open>2^64\<close>.
\<close>

definition int_of_size_t :: "nat \<Rightarrow> int" where
  "int_of_size_t i = sint (word_of_nat i :: 32 word)"

definition size_t_of_int :: "int \<Rightarrow> nat" where
  "size_t_of_int d = nat (d mod 2 ^ 64)"

section \<open>Exceptions and reports (lib/exception.h)\<close>

datatype exception = Exception (description: "string list")

text \<open>The two constructors of the class and \<^verbatim>\<open>num\<close>.\<close>

definition Exception_msg :: "string \<Rightarrow> exception" where
  "Exception_msg msg = Exception [msg]"

definition Exception_previous :: "exception \<Rightarrow> string \<Rightarrow> exception" where
  "Exception_previous previous_exception msg =
     Exception (description previous_exception @ [msg])"

definition num :: "exception \<Rightarrow> nat" where
  "num E = length (description E)"

text \<open>
  A run ends with a value, with a thrown exception, or with an access outside the storage
  of a matrix or a vector, which the source does not check and after which nothing is
  known of the run.
\<close>

datatype error = Throw exception | OutOfBounds

text \<open>
  What a run leaves behind outside its results: the paths it asked the file system about
  or read, in order; the calls of \<^verbatim>\<open>report_to_user_func\<close> (message and type); the calls of
  \<^verbatim>\<open>Exception::display_func\<close> (exception and log level).
\<close>

record world =
  accessed :: "string list"
  reported :: "(string \<times> int) list"
  displayed :: "(exception \<times> int) list"

text \<open>
  What the functions read from the rest of the program and from the machine: the log
  level, the command line's options by name (each occurrence with its arguments), the
  configuration file's lookup of a float with its default, the file system and the matrix
  file parser, the path functions of \<^verbatim>\<open>file/path.h\<close>, the content of freshly
  allocated matrix storage, and the rounding of \<^verbatim>\<open>ValueType\<close>: the value of the type
  (a number, or an infinity on overflow) that an operation returns for an exact result.
\<close>

record env =
  log_level :: int
  get_options :: "string \<Rightarrow> string list list"
  Config_get_float :: "string \<Rightarrow> value_type \<Rightarrow> value_type"
  Path_is_file :: "string \<Rightarrow> bool"
  Matrix_load :: "string \<Rightarrow> error + matrix"
  Path_dirname :: "string \<Rightarrow> string"
  Path_join :: "string \<Rightarrow> string \<Rightarrow> string"
  uninitialised :: value_type
  rounding :: "real \<Rightarrow> value_type"

definition report_to_user_func :: "string \<Rightarrow> int \<Rightarrow> world \<Rightarrow> world" where
  "report_to_user_func msg type w = w\<lparr>reported := reported w @ [(msg, type)]\<rparr>"

definition inform :: "env \<Rightarrow> string \<Rightarrow> world \<Rightarrow> world" where
  "inform e msg w = (if 2 \<le> log_level e then report_to_user_func msg 2 w else w)"

definition debug :: "env \<Rightarrow> string \<Rightarrow> world \<Rightarrow> world" where
  "debug e msg w = (if 3 \<le> log_level e then report_to_user_func msg 3 w else w)"

text \<open>\<^verbatim>\<open>E.display (log_level)\<close> hands the exception and the level to \<^verbatim>\<open>display_func\<close>.\<close>

definition display :: "exception \<Rightarrow> int \<Rightarrow> world \<Rightarrow> world" where
  "display E lvl w = w\<lparr>displayed := displayed w @ [(E, lvl)]\<rparr>"

text \<open>\<^verbatim>\<open>Path::is_file (path)\<close> and \<^verbatim>\<open>M.load (path)\<close>, each leaving its path in the world.\<close>

definition is_file :: "env \<Rightarrow> string \<Rightarrow> world \<Rightarrow> world \<times> bool" where
  "is_file e path w = (w\<lparr>accessed := accessed w @ [path]\<rparr>, Path_is_file e path)"

definition load :: "env \<Rightarrow> string \<Rightarrow> world \<Rightarrow> world \<times> (error + matrix)" where
  "load e path w = (w\<lparr>accessed := accessed w @ [path]\<rparr>, Matrix_load e path)"

section \<open>Strings\<close>

text \<open>
  Modelled from the spec: \<^verbatim>\<open>str\<close> (\<^verbatim>\<open>mrtrix.h\<close> is not among the sources). The spec
  speaks of "an informational count of DWI/b0 volumes found": a count is printed as its
  decimal digits.
\<close>

definition digit :: "nat \<Rightarrow> char" where
  "digit n = ''0123456789'' ! n"

function str :: "nat \<Rightarrow> string" where
  "str n = (if n < 10 then [digit n] else str (n div 10) @ [digit (n mod 10)])"
  by pat_completeness auto
termination
  by (relation "measure id") auto

declare str.simps [simp del]

text \<open>
  \<^verbatim>\<open>s.find_last_of (c)\<close> (\<open>None\<close> is \<^verbatim>\<open>npos\<close>) and \<^verbatim>\<open>s.substr (0, n)\<close> of the standard
  library: \<^verbatim>\<open>substr (0, npos)\<close> is the whole string.
\<close>

definition find_last_of :: "string \<Rightarrow> char \<Rightarrow> nat option" where
  "find_last_of s c =
     (if c \<in> set s then Some (length s - Suc (length (takeWhile (\<lambda>x. x \<noteq> c) (rev s))))
      else None)"

definition substr0 :: "string \<Rightarrow> nat option \<Rightarrow> string" where
  "substr0 s n = (case n of None \<Rightarrow> s | Some k \<Rightarrow> take k s)"

text \<open>
  Modelled from the spec: \<^verbatim>\<open>Path::has_suffix\<close> (\<^verbatim>\<open>file/path.h\<close> is not among the sources);
  the spec says "suffix bvals/bvecs", the name ends with the given string.
\<close>

definition has_suffix :: "string \<Rightarrow> string \<Rightarrow> bool" where
  "has_suffix name suffix =
     (length suffix \<le> length name \<and> drop (length name - length suffix) name = suffix)"

section \<open>Image headers\<close>

text \<open>
  What the functions read of an \<^verbatim>\<open>Image::Header\<close> (\<^verbatim>\<open>image/header.h\<close> is not among the
  sources): its name, \<^verbatim>\<open>ndim()\<close>, \<^verbatim>\<open>dim (k)\<close>, \<^verbatim>\<open>stride (k)\<close>, the result of
  \<^verbatim>\<open>Image::Stride::order (header, 0, 3)\<close> by position, \<^verbatim>\<open>transform()\<close> and \<^verbatim>\<open>DW_scheme()\<close>,
  which is \<open>None\<close> when \<^verbatim>\<open>is_set()\<close> is false.
\<close>

record header =
  name :: string
  ndim :: nat
  dim :: "nat \<Rightarrow> int"
  stride :: "nat \<Rightarrow> int"
  order :: "nat \<Rightarrow> nat"
  transform :: matrix
  DW_scheme :: "matrix option"

section \<open>The functions of src/dwi/gradient.h\<close>

subsection \<open>normalise_grad\<close>

text \<open>
  The quotient and the products of lines 51 to 54 are computed in \<^verbatim>\<open>ValueType\<close>: an exact
  result that is a number is rounded to the type; an infinity or \<open>NaN\<close> stays what it is.
\<close>

definition round_value :: "env \<Rightarrow> value_type \<Rightarrow> value_type" where
  "round_value e v = (case v of Num x \<Rightarrow> rounding e x | _ \<Rightarrow> v)"

text \<open>
  One turn of the loop: the factor is \<open>1 / norm\<close> of the first three values when the fourth
  is not zero and \<open>0\<close> otherwise, and the first three values are multiplied by it.
\<close>

definition normalise_row :: "env \<Rightarrow> value_type list \<Rightarrow> value_type list" where
  "normalise_row e r =
     (let norm = (if nonzero (r ! 3)
                  then round_value e (fdiv (Num 1) (Math_norm (take 3 r)))
                  else Num 0)
      in map (\<lambda>x. round_value e (fmul x norm)) (take 3 r) @ drop 3 r)"

text \<open>
  The matrix is changed in place: the result is the exception thrown, if any, and the
  matrix as the call leaves it.
\<close>

definition normalise_grad :: "env \<Rightarrow> matrix \<Rightarrow> error option \<times> matrix" where
  "normalise_grad e grad =
     (if columns grad \<noteq> 4
      then (Some (Throw (Exception_msg ''invalid gradient matrix dimensions'')), grad)
      else (None, grad\<lparr>elems := map (normalise_row e) (elems grad)\<rparr>))"

subsection \<open>guess_DW_directions\<close>

text \<open>
  The two index vectors are reference arguments: the call takes them as they are and
  returns them as it leaves them. A caller that gives no threshold passes \<open>NaN\<close>.
\<close>

definition guess_DW_directions ::
  "env \<Rightarrow> int list \<times> int list \<Rightarrow> matrix \<Rightarrow> value_type \<Rightarrow> world \<Rightarrow>
     error option \<times> (int list \<times> int list) \<times> world" where
  "guess_DW_directions e vecs grad bvalue_threshold0 w =
     (let bvalue_threshold =
            (if \<not> is_finite bvalue_threshold0
             then Config_get_float e ''BValueThreshold'' (Num 10)
             else bvalue_threshold0)
      in if columns grad \<noteq> 4
         then (Some (Throw (Exception_msg
                 ''invalid gradient encoding matrix: expecting 4 columns.'')), vecs, w)
         else
           let (dwi, bzero) =
                 foldl (\<lambda>(dwi, bzero) i.
                          if fgt (entry grad i 3) bvalue_threshold
                          then (dwi @ [int_of_size_t i], bzero)
                          else (dwi, bzero @ [int_of_size_t i]))
                   ([], []) [0..<rows grad]
           in (None, (dwi, bzero),
               inform e (''found '' @ str (length dwi) @ '' diffusion-weighted volumes and ''
                           @ str (length bzero) @ '' b=0 volumes'') w))"

subsection \<open>gen_direction_matrix\<close>

text \<open>
  The function has no \<^verbatim>\<open>throw\<close>. An index of \<open>dwi\<close> that is no row of \<open>grad\<close>, or a
  matrix of fewer than three columns, makes it read outside \<open>grad\<close>.
\<close>

definition gen_direction_matrix :: "matrix \<Rightarrow> int list \<Rightarrow> error + matrix" where
  "gen_direction_matrix grad dwi =
     (if list_ex (\<lambda>d. d < 0 \<or> rows grad \<le> nat d) dwi \<or> (dwi \<noteq> [] \<and> columns grad < 3)
      then Inl OutOfBounds
      else Inr \<lparr>columns = 2,
                elems = map (\<lambda>d. let n = Math_norm (take 3 (elems grad ! nat d))
                                  in [Math_atan2 (entry grad (nat d) 1) (entry grad (nat d) 0),
                                      Math_acos (fdiv (entry grad (nat d) 2) n)]) dwi\<rparr>)"

subsection \<open>load_bvecs_bvals\<close>

text \<open>
  Lines 128 to 140: the two paths and whether each is a file. The names with the image's
  prefix are tried when neither \<^verbatim>\<open>bvals\<close> nor \<^verbatim>\<open>bvecs\<close> is a file of the image's folder.
\<close>

definition load_bvecs_bvals_locate ::
  "env \<Rightarrow> header \<Rightarrow> world \<Rightarrow> world \<times> (string \<times> string \<times> bool \<times> bool)" where
  "load_bvecs_bvals_locate e h w0 =
     (let dir_path = Path_dirname e (name h);
          bvals_path = Path_join e dir_path ''bvals'';
          bvecs_path = Path_join e dir_path ''bvecs'';
          (w1, found_bvals) = is_file e bvals_path w0;
          (w2, found_bvecs) = is_file e bvecs_path w1
      in if \<not> found_bvals \<and> \<not> found_bvecs
         then
           let prefix = substr0 (name h) (find_last_of (name h) CHR ''.'');
               bvals_path = prefix @ ''_bvals'';
               bvecs_path = prefix @ ''_bvecs'';
               (w3, found_bvals) = is_file e bvals_path w2;
               (w4, found_bvecs) = is_file e bvecs_path w3
           in (w4, bvals_path, bvecs_path, found_bvals, found_bvecs)
         else (w2, bvals_path, bvecs_path, found_bvals, found_bvecs))"

text \<open>Lines 142 to 157: the three errors of an incomplete pair, the two loads, the shapes.\<close>

definition load_bvecs_bvals_read ::
  "env \<Rightarrow> header \<Rightarrow> string \<times> string \<times> bool \<times> bool \<Rightarrow> world \<Rightarrow>
     world \<times> (error + matrix \<times> matrix)" where
  "load_bvecs_bvals_read e h loc w =
     (case loc of (bvals_path, bvecs_path, found_bvals, found_bvecs) \<Rightarrow>
      if found_bvals \<and> \<not> found_bvecs
      then (w, Inl (Throw (Exception_msg ''found bvals file but not bvecs file'')))
      else if \<not> found_bvals \<and> found_bvecs
      then (w, Inl (Throw (Exception_msg ''found bvecs file but not bvals file'')))
      else if \<not> found_bvals \<and> \<not> found_bvecs
      then (w, Inl (Throw (Exception_msg
                ''could not find either bvecs or bvals gradient files'')))
      else
        (case load e bvals_path w of
          (w1, Inl err) \<Rightarrow> (w1, Inl err)
        | (w1, Inr bvals) \<Rightarrow>
            (case load e bvecs_path w1 of
               (w2, Inl err) \<Rightarrow> (w2, Inl err)
             | (w2, Inr bvecs) \<Rightarrow>
                 if rows bvals \<noteq> 1
                 then (w2, Inl (Throw (Exception_msg ''bvals file must contain 1 row only'')))
                 else if rows bvecs \<noteq> 3
                 then (w2, Inl (Throw (Exception_msg
                           ''bvecs file must contain exactly 3 rows'')))
                 else if columns bvals \<noteq> columns bvecs
                         \<or> columns bvals \<noteq> size_t_of_int (dim h 3)
                 then (w2, Inl (Throw (Exception_msg
                           ''bvals and bvecs files must have same number of diffusion directions as DW-image'')))
                 else (w2, Inr (bvals, bvecs)))))"

text \<open>
  Lines 162 to 168: row \<open>n\<close> of \<open>G\<close>, three writes into freshly allocated storage, in the
  order of the source.
\<close>

definition G_row :: "env \<Rightarrow> header \<Rightarrow> matrix \<Rightarrow> nat \<Rightarrow> value_type list" where
  "G_row e h bvecs n =
     (replicate 3 (uninitialised e))
       [order h 0 := (if 0 < stride h (order h 0) then entry bvecs 0 n else fneg (entry bvecs 0 n)),
        order h 1 := (if 0 < stride h (order h 1) then entry bvecs 1 n else fneg (entry bvecs 1 n)),
        order h 2 := (if 0 < stride h (order h 2) then entry bvecs 2 n else fneg (entry bvecs 2 n))]"

definition G_matrix :: "env \<Rightarrow> header \<Rightarrow> matrix \<Rightarrow> matrix" where
  "G_matrix e h bvecs = \<lparr>columns = 3, elems = map (G_row e h bvecs) [0..<columns bvecs]\<rparr>"

text \<open>
  Lines 159 to 176. A write at a column \<open>order[k]\<close> that \<open>G\<close> does not have, or a block
  taken of a transform smaller than three by three, is outside the storage.
\<close>

definition load_bvecs_bvals_rectify ::
  "env \<Rightarrow> header \<Rightarrow> matrix \<Rightarrow> matrix \<Rightarrow> error + matrix" where
  "load_bvecs_bvals_rectify e h bvals bvecs =
     (if (0 < columns bvecs \<and> (3 \<le> order h 0 \<or> 3 \<le> order h 1 \<or> 3 \<le> order h 2))
         \<or> rows (transform h) < 3 \<or> columns (transform h) < 3
      then Inl OutOfBounds
      else
        let G = G_matrix e h bvecs;
            rotation = sub (transform h) 3 3;
            grad_G = mult_NoTrans_Trans G rotation
        in Inr \<lparr>columns = 4,
                 elems = map (\<lambda>(d, b). d @ [b]) (zip (elems grad_G) (elems bvals ! 0))\<rparr>)"

definition load_bvecs_bvals :: "env \<Rightarrow> header \<Rightarrow> world \<Rightarrow> world \<times> (error + matrix)" where
  "load_bvecs_bvals e h w0 =
     (let (w1, loc) = load_bvecs_bvals_locate e h w0
      in case load_bvecs_bvals_read e h loc w1 of
           (w2, Inl err) \<Rightarrow> (w2, Inl err)
         | (w2, Inr (bvals, bvecs)) \<Rightarrow> (w2, load_bvecs_bvals_rectify e h bvals bvecs))"

subsection \<open>get_DW_scheme\<close>

text \<open>Lines 224 to 231: the check of the dimensions, the report and the normalisation.\<close>

definition get_DW_scheme_finish :: "env \<Rightarrow> matrix \<Rightarrow> world \<Rightarrow> world \<times> (error + matrix)" where
  "get_DW_scheme_finish e grad w =
     (if rows grad < 7 \<or> columns grad \<noteq> 4
      then (w, Inl (Throw (Exception_msg ''unexpected diffusion encoding matrix dimensions'')))
      else
        let w1 = inform e (''found '' @ str (rows grad) @ ''x'' @ str (columns grad)
                             @ '' diffusion-weighted encoding'') w
        in case normalise_grad e grad of
             (Some err, _) \<Rightarrow> (w1, Inl err)
           | (None, grad') \<Rightarrow> (w1, Inr grad'))"

text \<open>
  Lines 203 to 222: the source of the matrix. \<^verbatim>\<open>opt[0][0]\<close> is the first argument of the
  first occurrence of the option \<^verbatim>\<open>grad\<close>.
\<close>

definition get_DW_scheme_source :: "env \<Rightarrow> header \<Rightarrow> world \<Rightarrow> world \<times> (error + matrix)" where
  "get_DW_scheme_source e h w =
     (case get_options e ''grad'' of
        opt0 # _ \<Rightarrow>
          (case opt0 of
             [] \<Rightarrow> (w, Inl OutOfBounds)
           | path # _ \<Rightarrow>
               if has_suffix path ''bvals'' \<or> has_suffix path ''bvecs''
               then load_bvecs_bvals e h w
               else load e path w)
      | [] \<Rightarrow>
          (case DW_scheme h of
             Some scheme \<Rightarrow> (w, Inr scheme)
           | None \<Rightarrow>
               (case load_bvecs_bvals e h w of
                  (w1, Inl (Throw E)) \<Rightarrow>
                    (display E 3 w1,
                     Inl (Throw (Exception_msg
                       (''no diffusion encoding found in image '' @ [CHR 0x22] @ name h
                          @ [CHR 0x22] @ '' or corresponding directory''))))
                | (w1, r) \<Rightarrow> (w1, r))))"

definition get_DW_scheme :: "env \<Rightarrow> header \<Rightarrow> world \<Rightarrow> world \<times> (error + matrix)" where
  "get_DW_scheme e h w0 =
     (let w1 = debug e ''searching for suitable gradient encoding...'' w0
      in case get_DW_scheme_source e h w1 of
           (w2, Inl err) \<Rightarrow> (w2, Inl err)
         | (w2, Inr grad) \<Rightarrow> get_DW_scheme_finish e grad w2)"

subsection \<open>check_DW_scheme and get_valid_DW_scheme\<close>

definition check_DW_scheme :: "header \<Rightarrow> matrix \<Rightarrow> error option" where
  "check_DW_scheme h grad =
     (if ndim h \<noteq> 4
      then Some (Throw (Exception_msg ''dwi image should contain 4 dimensions''))
      else if dim h 3 \<noteq> int_of_size_t (rows grad)
      then Some (Throw (Exception_msg
             ''number of studies in base image does not match that in encoding file''))
      else None)"

definition get_valid_DW_scheme :: "env \<Rightarrow> header \<Rightarrow> world \<Rightarrow> world \<times> (error + matrix)" where
  "get_valid_DW_scheme e h w0 =
     (case get_DW_scheme e h w0 of
        (w1, Inl err) \<Rightarrow> (w1, Inl err)
      | (w1, Inr grad) \<Rightarrow>
          (case check_DW_scheme h grad of
             Some err \<Rightarrow> (w1, Inl err)
           | None \<Rightarrow> (w1, Inr grad)))"

section \<open>Conditions on inputs\<close>




section \<open>Example inputs\<close>

text \<open>
  An instance of the path functions: the folder of a path is what precedes its last
  slash, and a folder and a file name are joined by one slash.
\<close>

definition posix_dirname :: "string \<Rightarrow> string" where
  "posix_dirname p =
     (case find_last_of p CHR ''/'' of
        None \<Rightarrow> []
      | Some i \<Rightarrow> if i = 0 then ''/'' else take i p)"

definition posix_join :: "string \<Rightarrow> string \<Rightarrow> string" where
  "posix_join a b = (if a = [] then b else if last a = CHR ''/'' then a @ b else a @ ''/'' @ b)"

text \<open>
  An instance of the rounding, for \<^verbatim>\<open>ValueType\<close> double: IEEE binary64, to the nearest
  value, a tie to the even one. The exponent is that of the number or the least one, the
  unit in the last place is 52 binary places below it, and a rounded magnitude of
  \<open>2^1024\<close> or more is an infinity.
\<close>

definition round_half_even :: "real \<Rightarrow> int" where
  "round_half_even q =
     (let f = \<lfloor>q\<rfloor>
      in if q - of_int f < 1 / 2 then f
         else if 1 / 2 < q - of_int f then f + 1
         else if even f then f else f + 1)"

definition round_binary64 :: "real \<Rightarrow> value_type" where
  "round_binary64 x =
     (if x = 0 then Num 0
      else
        let e = max \<lfloor>log 2 \<bar>x\<bar>\<rfloor> (- 1022);
            ulp = 2 powi (e - 52);
            y = of_int (round_half_even (x / ulp)) * ulp
        in if 2 ^ 1024 \<le> \<bar>y\<bar> then (if 0 < x then PosInf else NegInf) else Num y)"

text \<open>
  An environment over a list of matrix files and the arguments of the \<^verbatim>\<open>grad\<close> option:
  every message is reported, the configuration file sets no key, values are doubles.
\<close>

definition example_env :: "(string \<times> matrix) list \<Rightarrow> string list list \<Rightarrow> env" where
  "example_env files grad_opts =
     \<lparr>log_level = 3,
      get_options = (\<lambda>n. if n = ''grad'' then grad_opts else []),
      Config_get_float = (\<lambda>key dflt. dflt),
      Path_is_file = (\<lambda>p. p \<in> set (map fst files)),
      Matrix_load = (\<lambda>p. case map_of files p of
                             None \<Rightarrow> Inl (Throw (Exception_msg ''cannot open file''))
                           | Some m \<Rightarrow> Inr m),
      Path_dirname = posix_dirname,
      Path_join = posix_join,
      uninitialised = NaN,
      rounding = round_binary64\<rparr>"

definition empty_world :: world where
  "empty_world = \<lparr>accessed = [], reported = [], displayed = []\<rparr>"

definition identity4 :: matrix where
  "identity4 = \<lparr>columns = 4, elems =
     [[Num 1, Num 0, Num 0, Num 0], [Num 0, Num 1, Num 0, Num 0],
      [Num 0, Num 0, Num 1, Num 0], [Num 0, Num 0, Num 0, Num 1]]\<rparr>"

text \<open>
  A four-dimensional image of two volumes at \<^verbatim>\<open>/data/dwi.mif\<close>; its first two axes are
  swapped and its first axis is inverted.
\<close>

definition example_header :: "matrix option \<Rightarrow> header" where
  "example_header scheme =
     \<lparr>name = ''/data/dwi.mif'', ndim = 4,
      dim = (\<lambda>k. if k = 3 then 2 else 8),
      stride = (\<lambda>k. if k = 0 then - 1 else int k + 1),
      order = (\<lambda>k. if k = 0 then 1 else if k = 1 then 0 else k),
      transform = identity4,
      DW_scheme = scheme\<rparr>"

definition example_bvals :: matrix where
  "example_bvals = \<lparr>columns = 2, elems = [[Num 0, Num 1000]]\<rparr>"

definition example_bvecs :: matrix where
  "example_bvecs = \<lparr>columns = 2, elems = [[Num 1, Num 0], [Num 0, Num 1], [Num 0, Num 0]]\<rparr>"

definition example_scheme :: matrix where
  "example_scheme = \<lparr>columns = 4, elems =
     [[Num 1, Num 0, Num 0, Num 0], [Num 0, Num 2, Num 0, Num 1000],
      [Num 0, Num 0, Num 1, Num 1000], [Num 0, Num 0, Num 0, Num 1000]]\<rparr>"



definition example_axis :: matrix where
  "example_axis = \<lparr>columns = 4, elems = [[Num 49, Num 0, Num 0, Num 1000]]\<rparr>"

definition example_three_columns :: matrix where
  "example_three_columns = \<lparr>columns = 3, elems = [[Num 1, Num 0, Num 0]]\<rparr>"

definition example_two_rows :: matrix where
  "example_two_rows = \<lparr>columns = 2, elems = [[Num 1, Num 0], [Num 0, Num 1]]\<rparr>"

text \<open>
  File systems: the pair beside the image under the plain names, under the names with
  the image's prefix, under the prefix with a plain \<^verbatim>\<open>bvals\<close> besides, a \<^verbatim>\<open>bvecs\<close> alone,
  the pair in another folder, and the plain names with a \<^verbatim>\<open>bvecs\<close> of two rows.
\<close>

definition files_plain :: "(string \<times> matrix) list" where
  "files_plain = [(''/data/bvals'', example_bvals), (''/data/bvecs'', example_bvecs)]"

definition files_prefixed :: "(string \<times> matrix) list" where
  "files_prefixed = [(''/data/dwi_bvals'', example_bvals), (''/data/dwi_bvecs'', example_bvecs)]"

definition files_bvals_and_prefixed :: "(string \<times> matrix) list" where
  "files_bvals_and_prefixed =
     [(''/data/bvals'', example_bvals),
      (''/data/dwi_bvals'', example_bvals), (''/data/dwi_bvecs'', example_bvecs)]"

definition files_bvecs_only :: "(string \<times> matrix) list" where
  "files_bvecs_only = [(''/data/bvecs'', example_bvecs)]"

definition files_other_folder :: "(string \<times> matrix) list" where
  "files_other_folder = [(''/other/bvals'', example_bvals), (''/other/bvecs'', example_bvecs)]"

definition files_two_rows :: "(string \<times> matrix) list" where
  "files_two_rows = [(''/data/bvals'', example_bvals), (''/data/bvecs'', example_two_rows)]"

text \<open>An image of seven volumes with its pair under the plain names.\<close>

definition example_header7 :: header where
  "example_header7 = (example_header None)\<lparr>dim := (\<lambda>k. if k = 3 then 7 else 8)\<rparr>"

definition example_bvals7 :: matrix where
  "example_bvals7 = \<lparr>columns = 7, elems =
     [[Num 0, Num 1000, Num 1000, Num 1000, Num 2000, Num 2000, Num 2000]]\<rparr>"

definition example_bvecs7 :: matrix where
  "example_bvecs7 = \<lparr>columns = 7, elems =
     [[Num 0, Num 1, Num 0, Num 0, Num 2, Num 0, Num 0],
      [Num 0, Num 0, Num 1, Num 0, Num 0, Num 2, Num 0],
      [Num 0, Num 0, Num 0, Num 1, Num 0, Num 0, Num 2]]\<rparr>"

definition files_seven :: "(string \<times> matrix) list" where
  "files_seven = [(''/data/bvals'', example_bvals7), (''/data/bvecs'', example_bvecs7)]"

section \<open>Properties\<close>

subsection \<open>Values and rows\<close>


lemma fgt_irrefl: "\<not> fgt v v"
  by (cases v) simp_all


lemma take_3_row: "3 \<le> length r \<Longrightarrow> take 3 r = [r ! 0, r ! 1, r ! 2]"
  by (cases r; cases "tl r"; cases "tl (tl r)") (auto simp: numeral_eq_Suc)

lemma Math_norm_3: "Math_norm [Num x, Num y, Num z] = Num (sqrt (x * x + y * y + z * z))"
  by (simp add: Math_norm_def)

lemma str_digit: "n < 10 \<Longrightarrow> str n = [digit n]"
  by (subst str.simps) simp

lemma int_of_size_t_small: "i < 2 ^ 31 \<Longrightarrow> int_of_size_t i = int i"
  unfolding int_of_size_t_def
  by (simp add: signed_of_nat signed_take_bit_int_eq_self)

subsection \<open>normalise_grad\<close>

lemma round_value_simps:
  "round_value e (Num x) = rounding e x" "round_value e NaN = NaN"
  "round_value e PosInf = PosInf" "round_value e NegInf = NegInf"
  by (simp_all add: round_value_def)

lemma normalise_row_4:
  "normalise_row e [a, b, c, d] =
     (let norm = (if nonzero d then round_value e (fdiv (Num 1) (Math_norm [a, b, c])) else Num 0)
      in [round_value e (fmul a norm), round_value e (fmul b norm), round_value e (fmul c norm), d])"
  by (simp add: normalise_row_def Let_def)













text \<open>The rounding of the examples, at the numbers they use.\<close>

lemma round_binary64_0: "round_binary64 0 = Num 0"
  by (simp add: round_binary64_def)

lemma round_binary64_1: "round_binary64 1 = Num 1"
  by (simp add: round_binary64_def Let_def round_half_even_def power_int_minus)

lemma round_binary64_minus_1: "round_binary64 (- 1) = Num (- 1)"
  by (simp add: round_binary64_def Let_def round_half_even_def power_int_minus)

lemma round_binary64_2: "round_binary64 2 = Num 2"
  by (simp add: round_binary64_def Let_def round_half_even_def power_int_minus)

lemma round_binary64_half: "round_binary64 (1 / 2) = Num (1 / 2)"
proof -
  have "log 2 (1 / 2) = - 1" by (simp add: log_divide)
  moreover have "\<lfloor>- 1 :: real\<rfloor> = - 1"
    using floor_of_int[of "- 1", where ?'a = real] by simp
  ultimately have e: "\<lfloor>log 2 \<bar>1 / 2 :: real\<bar>\<rfloor> = - 1" by simp
  show ?thesis
    unfolding round_binary64_def Let_def e
    by (simp add: round_half_even_def power_int_minus)
qed

text \<open>
  A number of magnitude in \<open>[2^k, 2^(k+1))\<close>, with \<open>k\<close> not below the least exponent,
  is rounded to a multiple of \<open>2^(k-52)\<close>.
\<close>

lemma floor_log2_eq:
  assumes "2 powi k \<le> \<bar>x\<bar>" "\<bar>x\<bar> < 2 powi (k + 1)"
  shows "\<lfloor>log 2 \<bar>x :: real\<bar>\<rfloor> = k"
proof -
  have "0 < (2::real) powi k" by simp
  with assms(1) have p: "0 < \<bar>x\<bar>" by linarith
  have pw: "(2::real) powr (real_of_int j) = 2 powi j" for j
    by (simp add: powr_real_of_int' power_int_def)
  from assms have "2 powr (real_of_int k) \<le> \<bar>x\<bar>" "\<bar>x\<bar> < 2 powr (real_of_int (k + 1))"
    unfolding pw by simp_all
  then show ?thesis
    using floor_log_eq_powr_iff[of "\<bar>x\<bar>" 2 k] p by simp
qed

lemma round_binary64_normal:
  assumes "2 powi k \<le> \<bar>x\<bar>" "\<bar>x\<bar> < 2 powi (k + 1)" "- 1022 \<le> k"
    and "y = of_int (round_half_even (x / 2 powi (k - 52))) * 2 powi (k - 52)"
    and "\<bar>y\<bar> < 2 ^ 1024"
  shows "round_binary64 x = Num y"
proof -
  have "0 < (2::real) powi k" by simp
  with assms(1) have "x \<noteq> 0" by linarith
  moreover have "max \<lfloor>log 2 \<bar>x\<bar>\<rfloor> (- 1022) = k"
    using floor_log2_eq[OF assms(1,2)] assms(3) by simp
  ultimately show ?thesis
    using assms(4,5) unfolding round_binary64_def Let_def by simp
qed

text \<open>
  In doubles \<open>1 / 49\<close> is rounded up, \<open>49 * (1 / 49)\<close> is the double below 1, the inverse of
  that one is the double above 1, and their product is 1.
\<close>

lemma round_binary64_inverse_49:
  "round_binary64 (1 / 49) = Num (5882252574524729 / 2 ^ 58)"
  by (rule round_binary64_normal[where k = "- 6"])
     (simp_all add: power_int_minus round_half_even_def Let_def)

lemma round_binary64_below_1:
  "round_binary64 (49 * (5882252574524729 / 2 ^ 58)) = Num (9007199254740991 / 2 ^ 53)"
  by (rule round_binary64_normal[where k = "- 1"])
     (simp_all add: power_int_minus round_half_even_def Let_def)

lemma round_binary64_above_1:
  "round_binary64 (1 / (9007199254740991 / 2 ^ 53)) = Num (4503599627370497 / 2 ^ 52)"
  by (rule round_binary64_normal[where k = 0])
     (simp_all add: power_int_minus round_half_even_def Let_def)

lemma round_binary64_product_1:
  "round_binary64 (9007199254740991 / 2 ^ 53 * (4503599627370497 / 2 ^ 52)) = Num 1"
  by (rule round_binary64_normal[where k = 0])
     (simp_all add: power_int_minus round_half_even_def Let_def)

lemma Math_norm_axis: "0 \<le> x \<Longrightarrow> Math_norm [Num x, Num 0, Num 0] = Num x"
  by (simp add: Math_norm_def)

lemmas example_rounding =
  round_binary64_0 round_binary64_1 round_binary64_minus_1 round_binary64_2 round_binary64_half

lemma example_rounding_env: "rounding (example_env files opts) = round_binary64"
  by (simp add: example_env_def)




text \<open>
  A row of finite numbers changes on the second pass as well, in doubles: the row
  \<open>(49, 0, 0, 1000)\<close> has the norm 49, the factor is the double nearest to \<open>1 / 49\<close>,
  and the first pass gives the double below 1 in its first entry; that one is the norm
  of the new row, the factor is the double above 1, and the second pass gives 1.
\<close>

lemma normalise_row_axis:
  assumes "0 < x" "d \<noteq> 0" "rounding e 0 = Num 0"
    and "rounding e (1 / x) = Num f" "rounding e (x * f) = Num y"
  shows "normalise_row e [Num x, Num 0, Num 0, Num d] = [Num y, Num 0, Num 0, Num d]"
  using assms
  by (simp add: normalise_row_4 Math_norm_axis nonzero_def Let_def round_value_simps)

lemma normalise_grad_single:
  "normalise_row e r = r' \<Longrightarrow>
     normalise_grad e \<lparr>columns = 4, elems = [r]\<rparr> = (None, \<lparr>columns = 4, elems = [r']\<rparr>)"
  by (simp add: normalise_grad_def)

theorem normalise_grad_rounding_changes:
  "normalise_grad (example_env [] []) example_axis
     = (None, \<lparr>columns = 4,
               elems = [[Num (9007199254740991 / 2 ^ 53), Num 0, Num 0, Num 1000]]\<rparr>)
   \<and> normalise_grad (example_env [] []) (snd (normalise_grad (example_env [] []) example_axis))
     = (None, \<lparr>columns = 4, elems = [[Num 1, Num 0, Num 0, Num 1000]]\<rparr>)"
proof -
  have h0: "rounding (example_env [] []) 0 = Num 0"
    by (simp only: example_rounding_env round_binary64_0)
  have h1: "rounding (example_env [] []) (1 / 49) = Num (5882252574524729 / 2 ^ 58)"
    by (simp only: example_rounding_env round_binary64_inverse_49)
  have h2: "rounding (example_env [] []) (49 * (5882252574524729 / 2 ^ 58))
      = Num (9007199254740991 / 2 ^ 53)"
    by (simp only: example_rounding_env round_binary64_below_1)
  have h3: "rounding (example_env [] []) (1 / (9007199254740991 / 2 ^ 53))
      = Num (4503599627370497 / 2 ^ 52)"
    by (simp only: example_rounding_env round_binary64_above_1)
  have h4: "rounding (example_env [] [])
        (9007199254740991 / 2 ^ 53 * (4503599627370497 / 2 ^ 52)) = Num 1"
    by (simp only: example_rounding_env round_binary64_product_1)
  have r1: "normalise_row (example_env [] []) [Num 49, Num 0, Num 0, Num 1000]
      = [Num (9007199254740991 / 2 ^ 53), Num 0, Num 0, Num 1000]"
    by (rule normalise_row_axis[OF _ _ h0 h1 h2]) simp_all
  have r2: "normalise_row (example_env [] [])
        [Num (9007199254740991 / 2 ^ 53), Num 0, Num 0, Num 1000]
      = [Num 1, Num 0, Num 0, Num 1000]"
    by (rule normalise_row_axis[OF _ _ h0 h3 h4]) simp_all
  have p1: "normalise_grad (example_env [] []) example_axis
     = (None, \<lparr>columns = 4,
               elems = [[Num (9007199254740991 / 2 ^ 53), Num 0, Num 0, Num 1000]]\<rparr>)"
    unfolding example_axis_def by (rule normalise_grad_single[OF r1])
  have p2: "normalise_grad (example_env [] [])
       \<lparr>columns = 4, elems = [[Num (9007199254740991 / 2 ^ 53), Num 0, Num 0, Num 1000]]\<rparr>
     = (None, \<lparr>columns = 4, elems = [[Num 1, Num 0, Num 0, Num 1000]]\<rparr>)"
    by (rule normalise_grad_single[OF r2])
  show ?thesis unfolding p1 using p2 by simp
qed

subsection \<open>guess_DW_directions\<close>

lemma classify_foldl:
  "foldl (\<lambda>(dwi, bzero) i. if P i then (dwi @ [c i], bzero) else (dwi, bzero @ [c i]))
      (d, b) xs
     = (d @ map c (filter P xs), b @ map c (filter (\<lambda>i. \<not> P i) xs))"
  by (induction xs arbitrary: d b) simp_all

lemma guess_DW_directions_result:
  assumes "columns grad = 4" and "rows grad \<le> 2 ^ 31"
  shows "\<exists>w'. guess_DW_directions e vecs grad thr w =
     (None,
      (map int (filter (\<lambda>i. fgt (entry grad i 3)
           (if is_finite thr then thr else Config_get_float e ''BValueThreshold'' (Num 10)))
         [0..<rows grad]),
       map int (filter (\<lambda>i. \<not> fgt (entry grad i 3)
           (if is_finite thr then thr else Config_get_float e ''BValueThreshold'' (Num 10)))
         [0..<rows grad])), w')"
proof -
  have c: "map int_of_size_t (filter Q [0..<rows grad]) = map int (filter Q [0..<rows grad])" for Q
    using assms(2) by (intro map_cong refl int_of_size_t_small) auto
  show ?thesis
    using assms(1)
    by (cases "is_finite thr") (simp_all add: guess_DW_directions_def classify_foldl c Let_def)
qed

lemma sorted_map_int_filter: "sorted_wrt (<) (map int (filter Q [0..<n]))"
proof -
  have "sorted_wrt (<) (filter Q [0..<n])"
    by (intro sorted_wrt_filter) (simp add: strict_sorted_iff[symmetric])
  then show ?thesis by (simp add: sorted_wrt_map)
qed

text \<open>
  C7. For a matrix of 4 columns (of at most \<open>2^31\<close> rows, so that a row index fits an
  \<^verbatim>\<open>int\<close>), the call throws nothing; with \<open>T\<close> the given threshold when it is finite and
  the configuration's value of "BValueThreshold", of default 10, otherwise, \<open>dwi\<close> holds the
  rows whose b-value is greater than \<open>T\<close> and \<open>bzero\<close> the others, each in increasing
  order; a row whose b-value is \<open>T\<close> is in \<open>bzero\<close>; the two sets are disjoint and
  together hold every row.
\<close>

theorem guess_DW_directions_partition:
  assumes "columns grad = 4" and "rows grad \<le> 2 ^ 31"
    and "T = (if is_finite thr then thr else Config_get_float e ''BValueThreshold'' (Num 10))"
    and "guess_DW_directions e vecs grad thr w = (r, (dwi, bzero), w')"
  shows "r = None
    \<and> dwi = map int (filter (\<lambda>i. fgt (entry grad i 3) T) [0..<rows grad])
    \<and> bzero = map int (filter (\<lambda>i. \<not> fgt (entry grad i 3) T) [0..<rows grad])
    \<and> (\<forall>i<rows grad. (int i \<in> set dwi) = fgt (entry grad i 3) T)
    \<and> (\<forall>i<rows grad. (int i \<in> set bzero) = (\<not> fgt (entry grad i 3) T))
    \<and> (\<forall>i<rows grad. entry grad i 3 = T \<longrightarrow> int i \<in> set bzero)
    \<and> set dwi \<inter> set bzero = {}
    \<and> set dwi \<union> set bzero = int ` {..<rows grad}
    \<and> sorted_wrt (<) dwi \<and> sorted_wrt (<) bzero"
proof -
  from guess_DW_directions_result[OF assms(1,2), of e vecs thr w] assms(3,4)
  have r: "r = None"
    and d: "dwi = map int (filter (\<lambda>i. fgt (entry grad i 3) T) [0..<rows grad])"
    and b: "bzero = map int (filter (\<lambda>i. \<not> fgt (entry grad i 3) T) [0..<rows grad])"
    by auto
  have m1: "\<forall>i<rows grad. (int i \<in> set dwi) = fgt (entry grad i 3) T"
    unfolding d by auto
  have m2: "\<forall>i<rows grad. (int i \<in> set bzero) = (\<not> fgt (entry grad i 3) T)"
    unfolding b by auto
  have m3: "\<forall>i<rows grad. entry grad i 3 = T \<longrightarrow> int i \<in> set bzero"
    using m2 by (simp add: fgt_irrefl)
  have m4: "set dwi \<inter> set bzero = {}" unfolding d b by auto
  have m5: "set dwi \<union> set bzero = int ` {..<rows grad}" unfolding d b by auto
  have m6: "sorted_wrt (<) dwi" "sorted_wrt (<) bzero"
    unfolding d b by (rule sorted_map_int_filter)+
  show ?thesis by (intro conjI r d b m1 m2 m3 m4 m5 m6)
qed

lemma example_guess:
  "guess_DW_directions (example_env [] []) ([7], [8]) example_scheme NaN empty_world
     = (None, ([1, 2, 3], [0]),
        \<lparr>accessed = [], reported = [(''found 3 diffusion-weighted volumes and 1 b=0 volumes'', 2)],
         displayed = []\<rparr>)"
  by (simp add: guess_DW_directions_def example_env_def example_scheme_def empty_world_def
      rows_def entry_def upt_rec[of 0] upt_rec[of 1] upt_rec[of 2] upt_rec[of 3] int_of_size_t_def
      inform_def report_to_user_func_def digit_def str_digit)

theorem guess_DW_directions_partition_witness:
  "columns example_scheme = 4 \<and> rows example_scheme \<le> 2 ^ 31
   \<and> Num 10 = (if is_finite NaN then NaN
                else Config_get_float (example_env [] []) ''BValueThreshold'' (Num 10))
   \<and> guess_DW_directions (example_env [] []) ([7], [8]) example_scheme NaN empty_world
       = (None, ([1, 2, 3], [0]),
          \<lparr>accessed = [],
           reported = [(''found 3 diffusion-weighted volumes and 1 b=0 volumes'', 2)],
           displayed = []\<rparr>)
   \<and> [1, 2, 3] = map int (filter (\<lambda>i. fgt (entry example_scheme i 3) (Num 10))
                     [0..<rows example_scheme])
   \<and> set [1, 2, 3] \<union> set [0] = int ` {..<rows example_scheme}"
proof -
  have h1: "columns example_scheme = 4" by (simp add: example_scheme_def)
  have h2: "rows example_scheme \<le> 2 ^ 31" by (simp add: example_scheme_def rows_def)
  have h3: "Num 10 = (if is_finite NaN then NaN
                else Config_get_float (example_env [] []) ''BValueThreshold'' (Num 10))"
    by (simp add: example_env_def)
  from guess_DW_directions_partition[OF h1 h2 h3 example_guess] h1 h2 h3 example_guess
  show ?thesis by blast
qed

text \<open>
  C10. For a matrix whose column count is not 4, the call throws "invalid gradient encoding
  matrix: expecting 4 columns." and leaves both index vectors, and the world, as they were.
\<close>

theorem guess_DW_directions_atomic:
  "columns grad \<noteq> 4 \<Longrightarrow>
     guess_DW_directions e (dwi, bzero) grad thr w =
       (Some (Throw (Exception_msg ''invalid gradient encoding matrix: expecting 4 columns.'')),
        (dwi, bzero), w)"
  by (simp add: guess_DW_directions_def Let_def)

theorem guess_DW_directions_atomic_witness:
  "columns example_three_columns \<noteq> 4
   \<and> guess_DW_directions (example_env [] []) ([7], [8]) example_three_columns NaN empty_world =
       (Some (Throw (Exception_msg ''invalid gradient encoding matrix: expecting 4 columns.'')),
        ([7], [8]), empty_world)"
proof -
  have h: "columns example_three_columns \<noteq> 4" by (simp add: example_three_columns_def)
  from guess_DW_directions_atomic[OF h] h show ?thesis by simp
qed

subsection \<open>gen_direction_matrix\<close>

text \<open>
  C5, as the code has it. For a well-formed matrix of at least three columns and indices
  that are rows of it, the call never fails, whatever the norm of a selected direction:
  the pair of index \<open>d\<close> is \<open>(atan2 (y, x), acos (z / n))\<close> with \<open>n\<close> the norm of
  \<open>(x, y, z)\<close>, in the order of the index vector. With \<open>n = 0\<close> the quotient is \<open>0 / 0\<close>.
\<close>

theorem gen_direction_matrix_total:
  assumes "wf_matrix grad" and "3 \<le> columns grad"
    and "list_all (\<lambda>d. 0 \<le> d \<and> nat d < rows grad) dwi"
  shows "gen_direction_matrix grad dwi =
     Inr \<lparr>columns = 2,
          elems = map (\<lambda>d. [Math_atan2 (entry grad (nat d) 1) (entry grad (nat d) 0),
                            Math_acos (fdiv (entry grad (nat d) 2)
                              (Math_norm [entry grad (nat d) 0, entry grad (nat d) 1,
                                          entry grad (nat d) 2]))]) dwi\<rparr>"
proof -
  have ok: "\<not> list_ex (\<lambda>d. d < 0 \<or> rows grad \<le> nat d) dwi"
    using assms(3) by (auto simp: list_all_iff list_ex_iff)
  have "take 3 (elems grad ! nat d) = [entry grad (nat d) 0, entry grad (nat d) 1, entry grad (nat d) 2]"
    if "d \<in> set dwi" for d
  proof -
    from that assms(3) have "nat d < rows grad" by (auto simp: list_all_iff)
    then have "elems grad ! nat d \<in> set (elems grad)" by (simp add: rows_def)
    with assms(1,2) have "3 \<le> length (elems grad ! nat d)" by (auto simp: wf_matrix_def list_all_iff)
    then show ?thesis by (simp add: take_3_row entry_def)
  qed
  then show ?thesis using ok assms(2)
    by (simp add: gen_direction_matrix_def Let_def cong: map_cong)
qed

lemma example_directions:
  "gen_direction_matrix example_scheme [1, 2, 3]
     = Inr \<lparr>columns = 2, elems = [[Num (pi / 2), Num (pi / 2)], [Num 0, Num 0], [Num 0, NaN]]\<rparr>"
  by (simp add: gen_direction_matrix_def example_scheme_def rows_def entry_def Math_norm_def)

theorem gen_direction_matrix_total_witness:
  "wf_matrix example_scheme \<and> 3 \<le> columns example_scheme
   \<and> list_all (\<lambda>d. 0 \<le> d \<and> nat d < rows example_scheme) [1, 2, 3]
   \<and> gen_direction_matrix example_scheme [1, 2, 3] =
       Inr \<lparr>columns = 2,
            elems = map (\<lambda>d. [Math_atan2 (entry example_scheme (nat d) 1)
                                 (entry example_scheme (nat d) 0),
                              Math_acos (fdiv (entry example_scheme (nat d) 2)
                                (Math_norm [entry example_scheme (nat d) 0,
                                            entry example_scheme (nat d) 1,
                                            entry example_scheme (nat d) 2]))]) [1, 2, 3]\<rparr>
   \<and> gen_direction_matrix example_scheme [1, 2, 3] =
       Inr \<lparr>columns = 2, elems = [[Num (pi / 2), Num (pi / 2)], [Num 0, Num 0], [Num 0, NaN]]\<rparr>"
proof -
  have h1: "wf_matrix example_scheme" by (simp add: example_scheme_def wf_matrix_def)
  have h2: "3 \<le> columns example_scheme" by (simp add: example_scheme_def)
  have h3: "list_all (\<lambda>d. 0 \<le> d \<and> nat d < rows example_scheme) [1, 2, 3]"
    by (simp add: example_scheme_def rows_def)
  from gen_direction_matrix_total[OF h1 h2 h3] h1 h2 h3 example_directions
  show ?thesis by blast
qed

text \<open>
  The claim C5 fails on this input: the one selected row has the direction \<open>(0, 0, 0)\<close>, of
  norm 0, and the call returns the pair \<open>(0, NaN)\<close> instead of failing.
\<close>

theorem gen_direction_matrix_zero_norm:
  "Math_norm (take 3 (elems \<lparr>columns = 4, elems = [[Num 0, Num 0, Num 0, Num 1000]]\<rparr> ! 0)) = Num 0
   \<and> gen_direction_matrix \<lparr>columns = 4, elems = [[Num 0, Num 0, Num 0, Num 1000]]\<rparr> [0]
       = Inr \<lparr>columns = 2, elems = [[Num 0, NaN]]\<rparr>"
  by (simp add: gen_direction_matrix_def Math_norm_def rows_def entry_def)

subsection \<open>load_bvecs_bvals\<close>

lemma prefix_extension:
  assumes "CHR ''.'' \<notin> set ext"
  shows "substr0 (base @ ''.'' @ ext) (find_last_of (base @ ''.'' @ ext) CHR ''.'') = base"
proof -
  have "takeWhile (\<lambda>x. x \<noteq> CHR ''.'') (rev ext @ CHR ''.'' # rev base) = rev ext"
    using assms by (auto simp: takeWhile_append2 takeWhile_tail)
  then show ?thesis by (simp add: find_last_of_def substr0_def)
qed

lemma prefix_no_extension:
  "CHR ''.'' \<notin> set s \<Longrightarrow> substr0 s (find_last_of s CHR ''.'') = s"
  by (simp add: find_last_of_def substr0_def)

text \<open>
  C3, as the code has it. The locator first asks for the files \<^verbatim>\<open>bvals\<close> and \<^verbatim>\<open>bvecs\<close> of
  the image's folder. When at least one of the two is a file it stops there, with these
  two paths and what it found of each; only when neither is a file does it ask for the
  prefix followed by \<^verbatim>\<open>_bvals\<close> and \<^verbatim>\<open>_bvecs\<close>. The prefix is the image's name without
  its extension, and the whole name when it has no dot.
\<close>

theorem load_bvecs_bvals_locate_order:
  assumes "dir_path = Path_dirname e (name h)"
    and "prefix = substr0 (name h) (find_last_of (name h) CHR ''.'')"
  shows "load_bvecs_bvals_locate e h w =
     (if Path_is_file e (Path_join e dir_path ''bvals'') \<or> Path_is_file e (Path_join e dir_path ''bvecs'')
      then (w\<lparr>accessed := accessed w @ [Path_join e dir_path ''bvals'', Path_join e dir_path ''bvecs'']\<rparr>,
            Path_join e dir_path ''bvals'', Path_join e dir_path ''bvecs'',
            Path_is_file e (Path_join e dir_path ''bvals''),
            Path_is_file e (Path_join e dir_path ''bvecs''))
      else (w\<lparr>accessed := accessed w @ [Path_join e dir_path ''bvals'', Path_join e dir_path ''bvecs'',
                                          prefix @ ''_bvals'', prefix @ ''_bvecs'']\<rparr>,
            prefix @ ''_bvals'', prefix @ ''_bvecs'',
            Path_is_file e (prefix @ ''_bvals''), Path_is_file e (prefix @ ''_bvecs'')))
   \<and> (\<forall>base ext. name h = base @ ''.'' @ ext \<and> CHR ''.'' \<notin> set ext \<and> CHR ''/'' \<notin> set ext
        \<longrightarrow> prefix = base)
   \<and> (CHR ''.'' \<notin> set (name h) \<longrightarrow> prefix = name h)"
  using assms
  by (auto simp: load_bvecs_bvals_locate_def is_file_def Let_def prefix_extension
      prefix_no_extension simp del: append.simps)


lemma size_t_of_int_small: "0 \<le> d \<Longrightarrow> d < 2 ^ 31 \<Longrightarrow> size_t_of_int d = nat d"
  by (simp add: size_t_of_int_def)

lemma fadd_zero_left: "fadd (Num 0) v = v"
  by (cases v) simp_all

lemma dot_3: "dot [a, b, c] [x, y, z] = fadd (fadd (fmul a x) (fmul b y)) (fmul c z)"
  by (simp add: dot_def fadd_zero_left)

lemma load_bvecs_bvals_read_incomplete:
  "found_bvals \<and> \<not> found_bvecs \<Longrightarrow>
     load_bvecs_bvals_read e h (bvals_path, bvecs_path, found_bvals, found_bvecs) w
       = (w, Inl (Throw (Exception_msg ''found bvals file but not bvecs file'')))"
  "\<not> found_bvals \<and> found_bvecs \<Longrightarrow>
     load_bvecs_bvals_read e h (bvals_path, bvecs_path, found_bvals, found_bvecs) w
       = (w, Inl (Throw (Exception_msg ''found bvecs file but not bvals file'')))"
  "\<not> found_bvals \<and> \<not> found_bvecs \<Longrightarrow>
     load_bvecs_bvals_read e h (bvals_path, bvecs_path, found_bvals, found_bvecs) w
       = (w, Inl (Throw (Exception_msg ''could not find either bvecs or bvals gradient files'')))"
  by (simp_all add: load_bvecs_bvals_read_def)

lemma load_bvecs_bvals_read_loaded:
  assumes "Matrix_load e bvals_path = Inr bvals" and "Matrix_load e bvecs_path = Inr bvecs"
  shows "load_bvecs_bvals_read e h (bvals_path, bvecs_path, True, True) w =
     (w\<lparr>accessed := accessed w @ [bvals_path, bvecs_path]\<rparr>,
      if rows bvals \<noteq> 1
      then Inl (Throw (Exception_msg ''bvals file must contain 1 row only''))
      else if rows bvecs \<noteq> 3
      then Inl (Throw (Exception_msg ''bvecs file must contain exactly 3 rows''))
      else if columns bvals \<noteq> columns bvecs \<or> columns bvals \<noteq> size_t_of_int (dim h 3)
      then Inl (Throw (Exception_msg
             ''bvals and bvecs files must have same number of diffusion directions as DW-image''))
      else Inr (bvals, bvecs))"
  using assms by (simp add: load_bvecs_bvals_read_def load_def)

lemma load_bvecs_bvals_read_Inr:
  assumes "load_bvecs_bvals_read e h (bvals_path, bvecs_path, found_bvals, found_bvecs) w
           = (w', Inr (bvals, bvecs))"
  shows "found_bvals \<and> found_bvecs \<and> Matrix_load e bvals_path = Inr bvals
         \<and> Matrix_load e bvecs_path = Inr bvecs
         \<and> rows bvals = 1 \<and> rows bvecs = 3 \<and> columns bvals = columns bvecs
         \<and> columns bvals = size_t_of_int (dim h 3)
         \<and> w' = w\<lparr>accessed := accessed w @ [bvals_path, bvecs_path]\<rparr>"
  using assms
  by (auto simp: load_bvecs_bvals_read_def load_def split: if_splits sum.splits)

lemma rectify_shape:
  assumes "load_bvecs_bvals_rectify e h bvals bvecs = Inr grad"
  shows "columns grad = 4" and "wf_matrix grad"
    and "rows grad = min (columns bvecs) (length (elems bvals ! 0))"
proof -
  from assms have t: "3 \<le> rows (transform h)"
    and g: "grad = \<lparr>columns = 4,
             elems = map (\<lambda>(d, b). d @ [b])
               (zip (elems (mult_NoTrans_Trans (G_matrix e h bvecs) (sub (transform h) 3 3)))
                    (elems bvals ! 0))\<rparr>"
    by (auto simp: load_bvecs_bvals_rectify_def Let_def split: if_splits)
  show "columns grad = 4" by (simp add: g)
  show "rows grad = min (columns bvecs) (length (elems bvals ! 0))"
    by (simp add: g rows_def mult_NoTrans_Trans_def G_matrix_def)
  have "length d = 3"
    if "d \<in> set (elems (mult_NoTrans_Trans (G_matrix e h bvecs) (sub (transform h) 3 3)))" for d
    using that t by (auto simp: mult_NoTrans_Trans_def sub_def rows_def)
  then show "wf_matrix grad"
    by (auto simp: g wf_matrix_def list_all_iff dest!: set_zip_leftD)
qed


lemma G_row_length: "length (G_row e h bvecs n) = 3"
  by (simp add: G_row_def)

lemma G_row_nth:
  assumes "order h 0 < 3" "order h 1 < 3" "order h 2 < 3"
    and "distinct [order h 0, order h 1, order h 2]"
  shows "G_row e h bvecs n ! order h 0
           = (if 0 < stride h (order h 0) then entry bvecs 0 n else fneg (entry bvecs 0 n))"
    and "G_row e h bvecs n ! order h 1
           = (if 0 < stride h (order h 1) then entry bvecs 1 n else fneg (entry bvecs 1 n))"
    and "G_row e h bvecs n ! order h 2
           = (if 0 < stride h (order h 2) then entry bvecs 2 n else fneg (entry bvecs 2 n))"
  using assms by (simp_all add: G_row_def nth_list_update)

lemma less_3_cases: "k < (3::nat) \<Longrightarrow> k = 0 \<or> k = 1 \<or> k = 2"
  by arith

lemma list_3_conv: "length r = 3 \<Longrightarrow> r = [r ! 0, r ! 1, r ! 2]"
  using take_3_row[of r] by simp

text \<open>
  C4. For a pair that was located and read, with the axis order a permutation of
  0, 1, 2 and a transform of at least three rows and columns, the load returns a matrix of
  4 columns and one row per volume such that: column \<open>order[k]\<close> of row \<open>n\<close> of \<open>G\<close> is
  \<open>bvecs (k,n)\<close> when the stride of axis \<open>order[k]\<close> is positive and its negation otherwise;
  entry \<open>(n, j)\<close> of the result, for \<open>j < 3\<close>, is the product of row \<open>n\<close> of \<open>G\<close> with row
  \<open>j\<close> of the transform's upper-left block, that is \<open>G\<close> times the transposed block; and
  column 3 of the result is the row of b-values, unchanged.
\<close>

theorem load_bvecs_bvals_rectified:
  assumes "load_bvecs_bvals_locate e h w = (w1, loc)"
    and "load_bvecs_bvals_read e h loc w1 = (w2, Inr (bvals, bvecs))"
    and "wf_matrix bvals"
    and "order h 0 < 3" "order h 1 < 3" "order h 2 < 3"
    and "distinct [order h 0, order h 1, order h 2]"
    and "wf_matrix (transform h)" "3 \<le> rows (transform h)" "3 \<le> columns (transform h)"
  shows "\<exists>grad. load_bvecs_bvals e h w = (w2, Inr grad)
     \<and> columns grad = 4 \<and> rows grad = columns bvecs
     \<and> (\<forall>n<columns bvecs. \<forall>k<3.
           entry (G_matrix e h bvecs) n (order h k)
             = (if 0 < stride h (order h k) then entry bvecs k n else fneg (entry bvecs k n)))
     \<and> (\<forall>n<columns bvecs. \<forall>j<3.
           entry grad n j
             = fadd (fadd (fmul (entry (G_matrix e h bvecs) n 0) (entry (transform h) j 0))
                          (fmul (entry (G_matrix e h bvecs) n 1) (entry (transform h) j 1)))
                    (fmul (entry (G_matrix e h bvecs) n 2) (entry (transform h) j 2)))
     \<and> (\<forall>n<columns bvecs. entry grad n 3 = entry bvals 0 n)"
proof -
  obtain bvals_path bvecs_path found_bvals found_bvecs
    where loc: "loc = (bvals_path, bvecs_path, found_bvals, found_bvecs)"
    by (cases loc) auto
  from load_bvecs_bvals_read_Inr[OF assms(2)[unfolded loc]]
  have rb: "rows bvals = 1" and cc: "columns bvals = columns bvecs" by simp_all
  from rb assms(3) have lb: "length (elems bvals ! 0) = columns bvecs"
    by (cases "elems bvals") (simp_all add: rows_def wf_matrix_def cc)
  define grad where "grad = \<lparr>columns = 4,
      elems = map (\<lambda>(d, b). d @ [b])
        (zip (elems (mult_NoTrans_Trans (G_matrix e h bvecs) (sub (transform h) 3 3)))
             (elems bvals ! 0))\<rparr>"
  have rect: "load_bvecs_bvals_rectify e h bvals bvecs = Inr grad"
    using assms(4-6,9,10) by (simp add: load_bvecs_bvals_rectify_def grad_def Let_def)
  have whole: "load_bvecs_bvals e h w = (w2, Inr grad)"
    using assms(1,2) rect by (simp add: load_bvecs_bvals_def)
  have rows_grad: "rows grad = columns bvecs"
    using rectify_shape(3)[OF rect] lb by simp
  have G: "entry (G_matrix e h bvecs) n c = G_row e h bvecs n ! c" if "n < columns bvecs" for n c
    using that by (simp add: entry_def G_matrix_def)
  have g1: "\<forall>n<columns bvecs. \<forall>k<3.
           entry (G_matrix e h bvecs) n (order h k)
             = (if 0 < stride h (order h k) then entry bvecs k n else fneg (entry bvecs k n))"
  proof (intro allI impI)
    fix n k :: nat assume n: "n < columns bvecs" and k: "k < 3"
    from less_3_cases[OF k] G_row_nth[OF assms(4-7), of e bvecs n]
    show "entry (G_matrix e h bvecs) n (order h k)
             = (if 0 < stride h (order h k) then entry bvecs k n else fneg (entry bvecs k n))"
      unfolding G[OF n] by (elim disjE) simp_all
  qed
  have rot: "elems (sub (transform h) 3 3) ! j
      = [entry (transform h) j 0, entry (transform h) j 1, entry (transform h) j 2]"
    if "j < 3" for j
  proof -
    from that assms(9) have "elems (transform h) ! j \<in> set (elems (transform h))"
      by (simp add: rows_def)
    with assms(8,10) have "3 \<le> length (elems (transform h) ! j)"
      by (simp add: wf_matrix_def list_all_iff)
    then have "take 3 (elems (transform h) ! j)
        = [entry (transform h) j 0, entry (transform h) j 1, entry (transform h) j 2]"
      by (simp add: take_3_row entry_def)
    moreover have "elems (sub (transform h) 3 3) ! j = take 3 (elems (transform h) ! j)"
      using that assms(9) by (simp add: sub_def rows_def)
    ultimately show ?thesis by simp
  qed
  have row: "elems grad ! n
      = map (dot (G_row e h bvecs n)) (elems (sub (transform h) 3 3)) @ [elems bvals ! 0 ! n]"
    if "n < columns bvecs" for n
    using that lb by (simp add: grad_def mult_NoTrans_Trans_def G_matrix_def)
  have len_rot: "length (elems (sub (transform h) 3 3)) = 3"
    using assms(9) by (simp add: sub_def rows_def)
  have g2: "\<forall>n<columns bvecs. \<forall>j<3.
           entry grad n j
             = fadd (fadd (fmul (entry (G_matrix e h bvecs) n 0) (entry (transform h) j 0))
                          (fmul (entry (G_matrix e h bvecs) n 1) (entry (transform h) j 1)))
                    (fmul (entry (G_matrix e h bvecs) n 2) (entry (transform h) j 2))"
  proof (intro allI impI)
    fix n j :: nat assume n: "n < columns bvecs" and j: "j < 3"
    have "entry grad n j = dot (G_row e h bvecs n) (elems (sub (transform h) 3 3) ! j)"
      using j len_rot by (simp add: entry_def row[OF n] nth_append)
    also have "\<dots> = dot [G_row e h bvecs n ! 0, G_row e h bvecs n ! 1, G_row e h bvecs n ! 2]
                       [entry (transform h) j 0, entry (transform h) j 1, entry (transform h) j 2]"
      using list_3_conv[OF G_row_length[of e h bvecs n]] rot[OF j] by simp
    finally show "entry grad n j
             = fadd (fadd (fmul (entry (G_matrix e h bvecs) n 0) (entry (transform h) j 0))
                          (fmul (entry (G_matrix e h bvecs) n 1) (entry (transform h) j 1)))
                    (fmul (entry (G_matrix e h bvecs) n 2) (entry (transform h) j 2))"
      by (simp add: dot_3 G[OF n])
  qed
  have g3: "\<forall>n<columns bvecs. entry grad n 3 = entry bvals 0 n"
  proof (intro allI impI)
    fix n assume n: "n < columns bvecs"
    show "entry grad n 3 = entry bvals 0 n"
      using len_rot by (simp add: entry_def row[OF n] nth_append)
  qed
  have c4: "columns grad = 4" by (simp add: grad_def)
  show ?thesis
    by (rule exI[of _ grad]) (intro conjI whole c4 rows_grad g1 g2 g3)
qed


lemmas example_defs =
  example_env_def example_header_def example_bvals_def example_bvecs_def example_two_rows_def
  empty_world_def identity4_def files_plain_def files_prefixed_def files_bvals_and_prefixed_def
  files_bvecs_only_def files_other_folder_def files_two_rows_def posix_dirname_def posix_join_def
  find_last_of_def substr0_def

lemmas load_defs =
  load_bvecs_bvals_def load_bvecs_bvals_locate_def load_bvecs_bvals_read_def
  load_bvecs_bvals_rectify_def G_matrix_def G_row_def is_file_def load_def Exception_msg_def
  rows_def entry_def size_t_of_int_def sub_def mult_NoTrans_Trans_def dot_def Let_def

lemma example_locate_bvals_only:
  "load_bvecs_bvals_locate (example_env files_bvals_and_prefixed []) (example_header None) empty_world
     = (\<lparr>accessed = [''/data/bvals'', ''/data/bvecs''], reported = [], displayed = []\<rparr>,
        ''/data/bvals'', ''/data/bvecs'', True, False)"
  by (simp add: example_defs load_defs)

lemma example_locate_prefixed:
  "load_bvecs_bvals_locate (example_env files_prefixed []) (example_header None) empty_world
     = (\<lparr>accessed = [''/data/bvals'', ''/data/bvecs'', ''/data/dwi_bvals'', ''/data/dwi_bvecs''],
         reported = [], displayed = []\<rparr>,
        ''/data/dwi_bvals'', ''/data/dwi_bvecs'', True, True)"
  by (simp add: example_defs load_defs)

lemma example_load_plain:
  "load_bvecs_bvals (example_env files_plain []) (example_header None) empty_world
     = (\<lparr>accessed = [''/data/bvals'', ''/data/bvecs'', ''/data/bvals'', ''/data/bvecs''],
         reported = [], displayed = []\<rparr>,
        Inr \<lparr>columns = 4, elems = [[Num 0, Num 1, Num 0, Num 0],
                                   [Num (- 1), Num 0, Num 0, Num 1000]]\<rparr>)"
  by (simp add: example_defs load_defs upt_rec[of 0] upt_rec[of 1] eval_nat_numeral)

lemma example_load_bvals_only:
  "load_bvecs_bvals (example_env files_bvals_and_prefixed []) (example_header None) empty_world
     = (\<lparr>accessed = [''/data/bvals'', ''/data/bvecs''], reported = [], displayed = []\<rparr>,
        Inl (Throw (Exception_msg ''found bvals file but not bvecs file'')))"
  by (simp add: example_defs load_defs)

lemma example_load_two_rows:
  "load_bvecs_bvals (example_env files_two_rows []) (example_header None) empty_world
     = (\<lparr>accessed = [''/data/bvals'', ''/data/bvecs'', ''/data/bvals'', ''/data/bvecs''],
         reported = [], displayed = []\<rparr>,
        Inl (Throw (Exception_msg ''bvecs file must contain exactly 3 rows'')))"
  by (simp add: example_defs load_defs)


text \<open>
  C6. With what the locator found: only \<^verbatim>\<open>bvals\<close>, only \<^verbatim>\<open>bvecs\<close> or neither makes the
  load throw the exception of that case, before any file is read. When both files are
  found and read, a \<^verbatim>\<open>bvals\<close> of other than 1 row, a \<^verbatim>\<open>bvecs\<close> of other than 3 rows, two
  different column counts or a column count other than the image's extent along axis 3
  makes it throw the exception of the first of these checks that fails. A matrix is
  returned only when every check passed; it has 4 columns in every row, and as many rows
  as the image has volumes. The extent is taken as a non-negative \<^verbatim>\<open>int\<close>.
\<close>

theorem load_bvecs_bvals_errors:
  assumes "load_bvecs_bvals_locate e h w = (w1, bvals_path, bvecs_path, found_bvals, found_bvecs)"
    and "0 \<le> dim h 3" and "dim h 3 < 2 ^ 31"
  shows
   "(found_bvals \<and> \<not> found_bvecs \<longrightarrow>
       load_bvecs_bvals e h w
         = (w1, Inl (Throw (Exception_msg ''found bvals file but not bvecs file''))))
    \<and> (\<not> found_bvals \<and> found_bvecs \<longrightarrow>
       load_bvecs_bvals e h w
         = (w1, Inl (Throw (Exception_msg ''found bvecs file but not bvals file''))))
    \<and> (\<not> found_bvals \<and> \<not> found_bvecs \<longrightarrow>
       load_bvecs_bvals e h w
         = (w1, Inl (Throw (Exception_msg
                  ''could not find either bvecs or bvals gradient files''))))
    \<and> (\<forall>bvals bvecs.
         found_bvals \<and> found_bvecs
         \<and> Matrix_load e bvals_path = Inr bvals \<and> Matrix_load e bvecs_path = Inr bvecs
         \<and> (rows bvals \<noteq> 1 \<or> rows bvecs \<noteq> 3 \<or> columns bvals \<noteq> columns bvecs
              \<or> int (columns bvals) \<noteq> dim h 3)
         \<longrightarrow> load_bvecs_bvals e h w
               = (w1\<lparr>accessed := accessed w1 @ [bvals_path, bvecs_path]\<rparr>,
                  Inl (Throw (Exception_msg
                    (if rows bvals \<noteq> 1 then ''bvals file must contain 1 row only''
                     else if rows bvecs \<noteq> 3 then ''bvecs file must contain exactly 3 rows''
                     else ''bvals and bvecs files must have same number of diffusion directions as DW-image'')))))
    \<and> (\<forall>w' grad.
         load_bvecs_bvals e h w = (w', Inr grad)
         \<longrightarrow> (\<exists>bvals bvecs.
                found_bvals \<and> found_bvecs
                \<and> Matrix_load e bvals_path = Inr bvals \<and> Matrix_load e bvecs_path = Inr bvecs
                \<and> rows bvals = 1 \<and> rows bvecs = 3 \<and> columns bvals = columns bvecs
                \<and> int (columns bvals) = dim h 3
                \<and> columns grad = 4 \<and> wf_matrix grad
                \<and> (wf_matrix bvals \<longrightarrow> int (rows grad) = dim h 3)))"
proof (intro conjI impI allI)
  assume "found_bvals \<and> \<not> found_bvecs"
  then show "load_bvecs_bvals e h w
         = (w1, Inl (Throw (Exception_msg ''found bvals file but not bvecs file'')))"
    using assms(1) by (simp add: load_bvecs_bvals_def load_bvecs_bvals_read_incomplete)
next
  assume "\<not> found_bvals \<and> found_bvecs"
  then show "load_bvecs_bvals e h w
         = (w1, Inl (Throw (Exception_msg ''found bvecs file but not bvals file'')))"
    using assms(1) by (simp add: load_bvecs_bvals_def load_bvecs_bvals_read_incomplete)
next
  assume "\<not> found_bvals \<and> \<not> found_bvecs"
  then show "load_bvecs_bvals e h w
         = (w1, Inl (Throw (Exception_msg
                  ''could not find either bvecs or bvals gradient files'')))"
    using assms(1) by (simp add: load_bvecs_bvals_def load_bvecs_bvals_read_incomplete)
next
  fix bvals bvecs
  assume a: "found_bvals \<and> found_bvecs
         \<and> Matrix_load e bvals_path = Inr bvals \<and> Matrix_load e bvecs_path = Inr bvecs
         \<and> (rows bvals \<noteq> 1 \<or> rows bvecs \<noteq> 3 \<or> columns bvals \<noteq> columns bvecs
              \<or> int (columns bvals) \<noteq> dim h 3)"
  then have l1: "Matrix_load e bvals_path = Inr bvals" and l2: "Matrix_load e bvecs_path = Inr bvecs"
    and f: "found_bvals" "found_bvecs"
    by simp_all
  have "columns bvals \<noteq> size_t_of_int (dim h 3)" if "int (columns bvals) \<noteq> dim h 3"
    using that assms(2,3) by (auto simp: size_t_of_int_small)
  with a show "load_bvecs_bvals e h w
               = (w1\<lparr>accessed := accessed w1 @ [bvals_path, bvecs_path]\<rparr>,
                  Inl (Throw (Exception_msg
                    (if rows bvals \<noteq> 1 then ''bvals file must contain 1 row only''
                     else if rows bvecs \<noteq> 3 then ''bvecs file must contain exactly 3 rows''
                     else ''bvals and bvecs files must have same number of diffusion directions as DW-image''))))"
    using assms(1) f by (auto simp: load_bvecs_bvals_def load_bvecs_bvals_read_loaded[OF l1 l2])
next
  fix w' grad
  assume r: "load_bvecs_bvals e h w = (w', Inr grad)"
  with assms(1) obtain w2 bvals bvecs
    where rd: "load_bvecs_bvals_read e h (bvals_path, bvecs_path, found_bvals, found_bvecs) w1
                = (w2, Inr (bvals, bvecs))"
      and rect: "load_bvecs_bvals_rectify e h bvals bvecs = Inr grad"
    by (auto simp: load_bvecs_bvals_def split: prod.splits sum.splits)
  note facts = load_bvecs_bvals_read_Inr[OF rd]
  from facts have "columns bvals = size_t_of_int (dim h 3)" by simp
  with assms(2,3) have ext: "int (columns bvals) = dim h 3"
    by (simp add: size_t_of_int_small)
  have rows_ok: "int (rows grad) = dim h 3" if "wf_matrix bvals"
  proof -
    from facts that have "length (elems bvals ! 0) = columns bvals"
      by (cases "elems bvals") (simp_all add: rows_def wf_matrix_def)
    with rectify_shape(3)[OF rect] facts ext show ?thesis by simp
  qed
  show "\<exists>bvals bvecs.
                found_bvals \<and> found_bvecs
                \<and> Matrix_load e bvals_path = Inr bvals \<and> Matrix_load e bvecs_path = Inr bvecs
                \<and> rows bvals = 1 \<and> rows bvecs = 3 \<and> columns bvals = columns bvecs
                \<and> int (columns bvals) = dim h 3
                \<and> columns grad = 4 \<and> wf_matrix grad
                \<and> (wf_matrix bvals \<longrightarrow> int (rows grad) = dim h 3)"
    using facts ext rectify_shape(1,2)[OF rect] rows_ok
    by (intro exI[of _ bvals] exI[of _ bvecs]) simp
qed

lemma example_read_plain:
  "load_bvecs_bvals_read (example_env files_plain []) (example_header None)
      (''/data/bvals'', ''/data/bvecs'', True, True)
      \<lparr>accessed = [''/data/bvals'', ''/data/bvecs''], reported = [], displayed = []\<rparr>
     = (\<lparr>accessed = [''/data/bvals'', ''/data/bvecs'', ''/data/bvals'', ''/data/bvecs''],
         reported = [], displayed = []\<rparr>,
        Inr (example_bvals, example_bvecs))"
  by (simp add: example_defs load_defs)

lemma example_locate_plain:
  "load_bvecs_bvals_locate (example_env files_plain []) (example_header None) empty_world
     = (\<lparr>accessed = [''/data/bvals'', ''/data/bvecs''], reported = [], displayed = []\<rparr>,
        ''/data/bvals'', ''/data/bvecs'', True, True)"
  by (simp add: example_defs load_defs)

lemma example_locate_two_rows:
  "load_bvecs_bvals_locate (example_env files_two_rows []) (example_header None) empty_world
     = (\<lparr>accessed = [''/data/bvals'', ''/data/bvecs''], reported = [], displayed = []\<rparr>,
        ''/data/bvals'', ''/data/bvecs'', True, True)"
  by (simp add: example_defs load_defs)

lemma example_locate_no_dot:
  "load_bvecs_bvals_locate (example_env files_prefixed [])
      ((example_header None)\<lparr>name := ''/data/dwi''\<rparr>) empty_world
     = (\<lparr>accessed = [''/data/bvals'', ''/data/bvecs'', ''/data/dwi_bvals'', ''/data/dwi_bvecs''],
         reported = [], displayed = []\<rparr>,
        ''/data/dwi_bvals'', ''/data/dwi_bvecs'', True, True)"
  by (simp add: example_defs load_defs)

theorem load_bvecs_bvals_locate_order_witness:
  "''/data'' = Path_dirname (example_env files_prefixed []) (name (example_header None))
   \<and> ''/data/dwi'' = substr0 (name (example_header None))
                        (find_last_of (name (example_header None)) CHR ''.'')
   \<and> name (example_header None) = ''/data/dwi'' @ ''.'' @ ''mif'' \<and> CHR ''.'' \<notin> set ''mif''
   \<and> CHR ''/'' \<notin> set ''mif''
   \<and> load_bvecs_bvals_locate (example_env files_prefixed []) (example_header None) empty_world
       = (\<lparr>accessed = [''/data/bvals'', ''/data/bvecs'', ''/data/dwi_bvals'', ''/data/dwi_bvecs''],
           reported = [], displayed = []\<rparr>,
          ''/data/dwi_bvals'', ''/data/dwi_bvecs'', True, True)
   \<and> ''/data'' = Path_dirname (example_env files_prefixed [])
                     (name ((example_header None)\<lparr>name := ''/data/dwi''\<rparr>))
   \<and> CHR ''.'' \<notin> set (name ((example_header None)\<lparr>name := ''/data/dwi''\<rparr>))
   \<and> substr0 (name ((example_header None)\<lparr>name := ''/data/dwi''\<rparr>))
        (find_last_of (name ((example_header None)\<lparr>name := ''/data/dwi''\<rparr>)) CHR ''.'')
       = name ((example_header None)\<lparr>name := ''/data/dwi''\<rparr>)
   \<and> load_bvecs_bvals_locate (example_env files_prefixed [])
        ((example_header None)\<lparr>name := ''/data/dwi''\<rparr>) empty_world
       = (\<lparr>accessed = [''/data/bvals'', ''/data/bvecs'', ''/data/dwi_bvals'', ''/data/dwi_bvecs''],
           reported = [], displayed = []\<rparr>,
          ''/data/dwi_bvals'', ''/data/dwi_bvecs'', True, True)"
proof -
  have h1: "''/data'' = Path_dirname (example_env files_prefixed []) (name (example_header None))"
    by (simp add: example_defs)
  have h2: "''/data/dwi'' = substr0 (name (example_header None))
                        (find_last_of (name (example_header None)) CHR ''.'')"
    by (simp add: example_defs)
  have h3: "name (example_header None) = ''/data/dwi'' @ ''.'' @ ''mif''"
    "CHR ''.'' \<notin> set ''mif''" "CHR ''/'' \<notin> set ''mif''"
    by (simp_all add: example_defs)
  have h4: "''/data'' = Path_dirname (example_env files_prefixed [])
                     (name ((example_header None)\<lparr>name := ''/data/dwi''\<rparr>))"
    by (simp add: example_defs)
  have h5: "CHR ''.'' \<notin> set (name ((example_header None)\<lparr>name := ''/data/dwi''\<rparr>))"
    by simp
  from load_bvecs_bvals_locate_order[OF h1 h2, of empty_world]
  have "load_bvecs_bvals_locate (example_env files_prefixed []) (example_header None) empty_world
     = (if Path_is_file (example_env files_prefixed [])
             (Path_join (example_env files_prefixed []) ''/data'' ''bvals'')
           \<or> Path_is_file (example_env files_prefixed [])
             (Path_join (example_env files_prefixed []) ''/data'' ''bvecs'')
        then (empty_world\<lparr>accessed := accessed empty_world
                @ [Path_join (example_env files_prefixed []) ''/data'' ''bvals'',
                   Path_join (example_env files_prefixed []) ''/data'' ''bvecs'']\<rparr>,
              Path_join (example_env files_prefixed []) ''/data'' ''bvals'',
              Path_join (example_env files_prefixed []) ''/data'' ''bvecs'',
              Path_is_file (example_env files_prefixed [])
                (Path_join (example_env files_prefixed []) ''/data'' ''bvals''),
              Path_is_file (example_env files_prefixed [])
                (Path_join (example_env files_prefixed []) ''/data'' ''bvecs''))
        else (empty_world\<lparr>accessed := accessed empty_world
                @ [Path_join (example_env files_prefixed []) ''/data'' ''bvals'',
                   Path_join (example_env files_prefixed []) ''/data'' ''bvecs'',
                   ''/data/dwi'' @ ''_bvals'', ''/data/dwi'' @ ''_bvecs'']\<rparr>,
              ''/data/dwi'' @ ''_bvals'', ''/data/dwi'' @ ''_bvecs'',
              Path_is_file (example_env files_prefixed []) (''/data/dwi'' @ ''_bvals''),
              Path_is_file (example_env files_prefixed []) (''/data/dwi'' @ ''_bvecs'')))"
    by (rule conjunct1)
  then have c1: "load_bvecs_bvals_locate (example_env files_prefixed []) (example_header None)
         empty_world
       = (\<lparr>accessed = [''/data/bvals'', ''/data/bvecs'', ''/data/dwi_bvals'', ''/data/dwi_bvecs''],
           reported = [], displayed = []\<rparr>,
          ''/data/dwi_bvals'', ''/data/dwi_bvecs'', True, True)"
    by (simp add: example_defs)
  from load_bvecs_bvals_locate_order[OF h4 refl, of empty_world] h5
  have c2: "substr0 (name ((example_header None)\<lparr>name := ''/data/dwi''\<rparr>))
        (find_last_of (name ((example_header None)\<lparr>name := ''/data/dwi''\<rparr>)) CHR ''.'')
       = name ((example_header None)\<lparr>name := ''/data/dwi''\<rparr>)"
    by blast
  show ?thesis
    by (intro conjI h1 h2 h3 c1 h4 h5 c2 example_locate_no_dot)
qed

text \<open>
  The claim C3 fails on this input: \<^verbatim>\<open>bvals\<close> is a file of the image's folder, \<^verbatim>\<open>bvecs\<close> is
  not, and both files with the image's prefix exist. The locator does not fall back to
  them, and the load throws "found bvals file but not bvecs file".
\<close>

theorem load_bvecs_bvals_no_fallback:
  "Path_is_file (example_env files_bvals_and_prefixed []) ''/data/bvals''
   \<and> \<not> Path_is_file (example_env files_bvals_and_prefixed []) ''/data/bvecs''
   \<and> Path_is_file (example_env files_bvals_and_prefixed []) ''/data/dwi_bvals''
   \<and> Path_is_file (example_env files_bvals_and_prefixed []) ''/data/dwi_bvecs''
   \<and> load_bvecs_bvals_locate (example_env files_bvals_and_prefixed []) (example_header None)
         empty_world
       = (\<lparr>accessed = [''/data/bvals'', ''/data/bvecs''], reported = [], displayed = []\<rparr>,
          ''/data/bvals'', ''/data/bvecs'', True, False)
   \<and> load_bvecs_bvals (example_env files_bvals_and_prefixed []) (example_header None) empty_world
       = (\<lparr>accessed = [''/data/bvals'', ''/data/bvecs''], reported = [], displayed = []\<rparr>,
          Inl (Throw (Exception_msg ''found bvals file but not bvecs file'')))"
  using example_locate_bvals_only example_load_bvals_only
  by (simp add: example_env_def files_bvals_and_prefixed_def)

theorem load_bvecs_bvals_rectified_witness:
  "load_bvecs_bvals_locate (example_env files_plain []) (example_header None) empty_world
     = (\<lparr>accessed = [''/data/bvals'', ''/data/bvecs''], reported = [], displayed = []\<rparr>,
        ''/data/bvals'', ''/data/bvecs'', True, True)
   \<and> load_bvecs_bvals_read (example_env files_plain []) (example_header None)
        (''/data/bvals'', ''/data/bvecs'', True, True)
        \<lparr>accessed = [''/data/bvals'', ''/data/bvecs''], reported = [], displayed = []\<rparr>
       = (\<lparr>accessed = [''/data/bvals'', ''/data/bvecs'', ''/data/bvals'', ''/data/bvecs''],
           reported = [], displayed = []\<rparr>,
          Inr (example_bvals, example_bvecs))
   \<and> wf_matrix example_bvals
   \<and> order (example_header None) 0 < 3 \<and> order (example_header None) 1 < 3
   \<and> order (example_header None) 2 < 3
   \<and> distinct [order (example_header None) 0, order (example_header None) 1,
                order (example_header None) 2]
   \<and> wf_matrix (transform (example_header None))
   \<and> 3 \<le> rows (transform (example_header None))
   \<and> 3 \<le> columns (transform (example_header None))
   \<and> (\<exists>grad. load_bvecs_bvals (example_env files_plain []) (example_header None) empty_world
          = (\<lparr>accessed = [''/data/bvals'', ''/data/bvecs'', ''/data/bvals'', ''/data/bvecs''],
              reported = [], displayed = []\<rparr>, Inr grad)
        \<and> columns grad = 4 \<and> rows grad = columns example_bvecs
        \<and> grad = \<lparr>columns = 4, elems = [[Num 0, Num 1, Num 0, Num 0],
                                           [Num (- 1), Num 0, Num 0, Num 1000]]\<rparr>)"
proof -
  have h3: "wf_matrix example_bvals" by (simp add: example_bvals_def wf_matrix_def)
  have h4: "order (example_header None) 0 < 3" "order (example_header None) 1 < 3"
    "order (example_header None) 2 < 3"
    by (simp_all add: example_header_def)
  have h7: "distinct [order (example_header None) 0, order (example_header None) 1,
                order (example_header None) 2]"
    by (simp add: example_header_def)
  have h8: "wf_matrix (transform (example_header None))"
    "3 \<le> rows (transform (example_header None))" "3 \<le> columns (transform (example_header None))"
    by (simp_all add: example_header_def identity4_def wf_matrix_def rows_def)
  from load_bvecs_bvals_rectified[OF example_locate_plain example_read_plain h3 h4 h7 h8]
  obtain grad where g: "load_bvecs_bvals (example_env files_plain []) (example_header None) empty_world
          = (\<lparr>accessed = [''/data/bvals'', ''/data/bvecs'', ''/data/bvals'', ''/data/bvecs''],
              reported = [], displayed = []\<rparr>, Inr grad)"
    "columns grad = 4" "rows grad = columns example_bvecs"
    by blast
  from g(1) example_load_plain
  have "grad = \<lparr>columns = 4, elems = [[Num 0, Num 1, Num 0, Num 0],
                                           [Num (- 1), Num 0, Num 0, Num 1000]]\<rparr>"
    by simp
  with g example_locate_plain example_read_plain h3 h4 h7 h8 show ?thesis by blast
qed

lemma example_locate_bvecs_only:
  "load_bvecs_bvals_locate (example_env files_bvecs_only []) (example_header None) empty_world
     = (\<lparr>accessed = [''/data/bvals'', ''/data/bvecs''], reported = [], displayed = []\<rparr>,
        ''/data/bvals'', ''/data/bvecs'', False, True)"
  by (simp add: example_defs load_defs)

lemma example_locate_nothing:
  "load_bvecs_bvals_locate (example_env [] []) (example_header None) empty_world
     = (\<lparr>accessed = [''/data/bvals'', ''/data/bvecs'', ''/data/dwi_bvals'', ''/data/dwi_bvecs''],
         reported = [], displayed = []\<rparr>,
        ''/data/dwi_bvals'', ''/data/dwi_bvecs'', False, False)"
  by (simp add: example_defs load_defs)

theorem load_bvecs_bvals_errors_witness:
  "0 \<le> dim (example_header None) 3 \<and> dim (example_header None) 3 < 2 ^ 31
   \<and> load_bvecs_bvals_locate (example_env files_bvals_and_prefixed []) (example_header None)
       empty_world
     = (\<lparr>accessed = [''/data/bvals'', ''/data/bvecs''], reported = [], displayed = []\<rparr>,
        ''/data/bvals'', ''/data/bvecs'', True, False)
   \<and> load_bvecs_bvals (example_env files_bvals_and_prefixed []) (example_header None) empty_world
       = (\<lparr>accessed = [''/data/bvals'', ''/data/bvecs''], reported = [], displayed = []\<rparr>,
          Inl (Throw (Exception_msg ''found bvals file but not bvecs file'')))
   \<and> load_bvecs_bvals_locate (example_env files_bvecs_only []) (example_header None) empty_world
     = (\<lparr>accessed = [''/data/bvals'', ''/data/bvecs''], reported = [], displayed = []\<rparr>,
        ''/data/bvals'', ''/data/bvecs'', False, True)
   \<and> load_bvecs_bvals (example_env files_bvecs_only []) (example_header None) empty_world
       = (\<lparr>accessed = [''/data/bvals'', ''/data/bvecs''], reported = [], displayed = []\<rparr>,
          Inl (Throw (Exception_msg ''found bvecs file but not bvals file'')))
   \<and> load_bvecs_bvals_locate (example_env [] []) (example_header None) empty_world
     = (\<lparr>accessed = [''/data/bvals'', ''/data/bvecs'', ''/data/dwi_bvals'', ''/data/dwi_bvecs''],
         reported = [], displayed = []\<rparr>,
        ''/data/dwi_bvals'', ''/data/dwi_bvecs'', False, False)
   \<and> load_bvecs_bvals (example_env [] []) (example_header None) empty_world
       = (\<lparr>accessed = [''/data/bvals'', ''/data/bvecs'', ''/data/dwi_bvals'', ''/data/dwi_bvecs''],
           reported = [], displayed = []\<rparr>,
          Inl (Throw (Exception_msg ''could not find either bvecs or bvals gradient files'')))
   \<and> load_bvecs_bvals_locate (example_env files_two_rows []) (example_header None) empty_world
     = (\<lparr>accessed = [''/data/bvals'', ''/data/bvecs''], reported = [], displayed = []\<rparr>,
        ''/data/bvals'', ''/data/bvecs'', True, True)
   \<and> Matrix_load (example_env files_two_rows []) ''/data/bvals'' = Inr example_bvals
   \<and> Matrix_load (example_env files_two_rows []) ''/data/bvecs'' = Inr example_two_rows
   \<and> rows example_two_rows \<noteq> 3
   \<and> load_bvecs_bvals (example_env files_two_rows []) (example_header None) empty_world
       = (\<lparr>accessed = [''/data/bvals'', ''/data/bvecs'', ''/data/bvals'', ''/data/bvecs''],
           reported = [], displayed = []\<rparr>,
          Inl (Throw (Exception_msg ''bvecs file must contain exactly 3 rows'')))
   \<and> load_bvecs_bvals_locate (example_env files_plain []) (example_header None) empty_world
     = (\<lparr>accessed = [''/data/bvals'', ''/data/bvecs''], reported = [], displayed = []\<rparr>,
        ''/data/bvals'', ''/data/bvecs'', True, True)
   \<and> (\<exists>w' grad. load_bvecs_bvals (example_env files_plain []) (example_header None) empty_world
          = (w', Inr grad)
        \<and> columns grad = 4 \<and> wf_matrix grad \<and> int (rows grad) = dim (example_header None) 3)"
proof -
  have d: "0 \<le> dim (example_header None) 3" "dim (example_header None) 3 < 2 ^ 31"
    by (simp_all add: example_header_def)
  note t1 = load_bvecs_bvals_errors[OF example_locate_bvals_only d]
  note t2 = load_bvecs_bvals_errors[OF example_locate_two_rows d]
  note t3 = load_bvecs_bvals_errors[OF example_locate_plain d]
  note t4 = load_bvecs_bvals_errors[OF example_locate_bvecs_only d]
  note t5 = load_bvecs_bvals_errors[OF example_locate_nothing d]
  from t1 have c1: "load_bvecs_bvals (example_env files_bvals_and_prefixed []) (example_header None)
        empty_world
       = (\<lparr>accessed = [''/data/bvals'', ''/data/bvecs''], reported = [], displayed = []\<rparr>,
          Inl (Throw (Exception_msg ''found bvals file but not bvecs file'')))"
    by simp
  from t4 have c4: "load_bvecs_bvals (example_env files_bvecs_only []) (example_header None)
        empty_world
       = (\<lparr>accessed = [''/data/bvals'', ''/data/bvecs''], reported = [], displayed = []\<rparr>,
          Inl (Throw (Exception_msg ''found bvecs file but not bvals file'')))"
    by simp
  from t5 have c5: "load_bvecs_bvals (example_env [] []) (example_header None) empty_world
       = (\<lparr>accessed = [''/data/bvals'', ''/data/bvecs'', ''/data/dwi_bvals'', ''/data/dwi_bvecs''],
           reported = [], displayed = []\<rparr>,
          Inl (Throw (Exception_msg ''could not find either bvecs or bvals gradient files'')))"
    by simp
  have l: "Matrix_load (example_env files_two_rows []) ''/data/bvals'' = Inr example_bvals"
    "Matrix_load (example_env files_two_rows []) ''/data/bvecs'' = Inr example_two_rows"
    "rows example_two_rows \<noteq> 3" "rows example_bvals = 1"
    by (simp_all add: example_defs rows_def)
  from t2 l have c2: "load_bvecs_bvals (example_env files_two_rows []) (example_header None) empty_world
       = (\<lparr>accessed = [''/data/bvals'', ''/data/bvecs'', ''/data/bvals'', ''/data/bvecs''],
           reported = [], displayed = []\<rparr>,
          Inl (Throw (Exception_msg ''bvecs file must contain exactly 3 rows'')))"
    by simp
  have wb: "wf_matrix example_bvals" by (simp add: example_bvals_def wf_matrix_def)
  have lp: "Matrix_load (example_env files_plain []) ''/data/bvals'' = Inr example_bvals"
    by (simp add: example_defs)
  from t3 example_load_plain
  have "\<exists>bvals bvecs. Matrix_load (example_env files_plain []) ''/data/bvals'' = Inr bvals
      \<and> columns \<lparr>columns = 4, elems = [[Num 0, Num 1, Num 0, Num 0],
                                   [Num (- 1), Num 0, Num 0, Num 1000]]\<rparr> = 4
      \<and> wf_matrix \<lparr>columns = 4, elems = [[Num 0, Num 1, Num 0, Num 0],
                                   [Num (- 1), Num 0, Num 0, Num 1000]]\<rparr>
      \<and> (wf_matrix bvals \<longrightarrow> int (rows \<lparr>columns = 4, elems = [[Num 0, Num 1, Num 0, Num 0],
                                   [Num (- 1), Num 0, Num 0, Num 1000]]\<rparr>) = dim (example_header None) 3)"
    by blast
  with lp wb example_load_plain
  have c3: "\<exists>w' grad. load_bvecs_bvals (example_env files_plain []) (example_header None) empty_world
          = (w', Inr grad)
        \<and> columns grad = 4 \<and> wf_matrix grad \<and> int (rows grad) = dim (example_header None) 3"
    by auto
  show ?thesis
    by (intro conjI d example_locate_bvals_only c1 example_locate_bvecs_only c4
        example_locate_nothing c5 example_locate_two_rows l(1,2,3) c2 example_locate_plain c3)
qed

subsection \<open>get_DW_scheme\<close>

lemma debug_fields:
  "accessed (debug e msg w) = accessed w" "displayed (debug e msg w) = displayed w"
  by (simp_all add: debug_def report_to_user_func_def)

lemma inform_fields:
  "accessed (inform e msg w) = accessed w" "displayed (inform e msg w) = displayed w"
  by (simp_all add: inform_def report_to_user_func_def)

lemma display_fields:
  "accessed (display E lvl w) = accessed w" "reported (display E lvl w) = reported w"
  "displayed (display E lvl w) = displayed w @ [(E, lvl)]"
  by (simp_all add: display_def)

lemma get_DW_scheme_finish_accessed:
  "accessed (fst (get_DW_scheme_finish e grad w)) = accessed w"
  by (simp add: get_DW_scheme_finish_def Let_def inform_fields split: prod.splits option.splits)

lemma G_matrix_ignores:
  "G_matrix (e\<lparr>get_options := f\<rparr>) h bvecs = G_matrix e h bvecs"
  "G_matrix e (h\<lparr>DW_scheme := s\<rparr>) bvecs = G_matrix e h bvecs"
  by (simp_all add: G_matrix_def G_row_def)

lemma load_bvecs_bvals_stages_ignore_options:
  "load_bvecs_bvals_locate (e\<lparr>get_options := f\<rparr>) h w = load_bvecs_bvals_locate e h w"
  "load_bvecs_bvals_read (e\<lparr>get_options := f\<rparr>) h loc w = load_bvecs_bvals_read e h loc w"
  "load_bvecs_bvals_rectify (e\<lparr>get_options := f\<rparr>) h bvals bvecs
     = load_bvecs_bvals_rectify e h bvals bvecs"
  by (simp_all add: load_bvecs_bvals_locate_def load_bvecs_bvals_read_def
      load_bvecs_bvals_rectify_def G_matrix_ignores is_file_def load_def Let_def
      cong: prod.case_cong sum.case_cong if_cong)

lemma load_bvecs_bvals_stages_ignore_scheme:
  "load_bvecs_bvals_locate e (h\<lparr>DW_scheme := s\<rparr>) w = load_bvecs_bvals_locate e h w"
  "load_bvecs_bvals_read e (h\<lparr>DW_scheme := s\<rparr>) loc w = load_bvecs_bvals_read e h loc w"
  "load_bvecs_bvals_rectify e (h\<lparr>DW_scheme := s\<rparr>) bvals bvecs
     = load_bvecs_bvals_rectify e h bvals bvecs"
  by (simp_all add: load_bvecs_bvals_locate_def load_bvecs_bvals_read_def
      load_bvecs_bvals_rectify_def G_matrix_ignores is_file_def load_def Let_def
      cong: prod.case_cong sum.case_cong if_cong)

lemma load_bvecs_bvals_ignores_options:
  "load_bvecs_bvals (e\<lparr>get_options := f\<rparr>) h w = load_bvecs_bvals e h w"
  by (simp add: load_bvecs_bvals_def load_bvecs_bvals_stages_ignore_options
      cong: prod.case_cong sum.case_cong)

lemma load_bvecs_bvals_ignores_scheme:
  "load_bvecs_bvals e (h\<lparr>DW_scheme := s\<rparr>) w = load_bvecs_bvals e h w"
  by (simp add: load_bvecs_bvals_def load_bvecs_bvals_stages_ignore_scheme
      cong: prod.case_cong sum.case_cong)

lemma normalise_grad_ignores_options:
  "normalise_grad (e\<lparr>get_options := f\<rparr>) grad = normalise_grad e grad"
proof -
  have "round_value (e\<lparr>get_options := f\<rparr>) = round_value e"
    by (simp add: fun_eq_iff round_value_def split: value_type.split)
  then have "normalise_row (e\<lparr>get_options := f\<rparr>) = normalise_row e"
    by (simp add: fun_eq_iff normalise_row_def)
  then show ?thesis by (simp add: normalise_grad_def)
qed

lemma get_DW_scheme_finish_ignores_options:
  "get_DW_scheme_finish (e\<lparr>get_options := f\<rparr>) grad w = get_DW_scheme_finish e grad w"
  by (simp add: get_DW_scheme_finish_def inform_def normalise_grad_ignores_options)

lemma debug_ignores_options: "debug (e\<lparr>get_options := f\<rparr>) msg w = debug e msg w"
  by (simp add: debug_def)

lemma get_DW_scheme_explicit:
  assumes "get_options e ''grad'' = (path # args) # rest"
    and "has_suffix path ''bvals'' \<or> has_suffix path ''bvecs''"
  shows "get_DW_scheme e h w =
       (case load_bvecs_bvals e h (debug e ''searching for suitable gradient encoding...'' w) of
          (w2, Inl err) \<Rightarrow> (w2, Inl err)
        | (w2, Inr grad) \<Rightarrow> get_DW_scheme_finish e grad w2)"
  using assms by (auto simp: get_DW_scheme_def get_DW_scheme_source_def Let_def)

text \<open>
  C2. With no \<^verbatim>\<open>grad\<close> option and no scheme in the header, when the load of the sidecar
  pair throws the exception \<open>E\<close>, the resolver hands \<open>E\<close>, with its whole description, to
  the display function at level 3, the level of debugging information, and throws a new
  exception whose description is the one message: no diffusion encoding found in image
  "name" or corresponding directory. Nothing else of the world changes.
\<close>

theorem get_DW_scheme_not_found:
  assumes "get_options e ''grad'' = []" and "DW_scheme h = None"
    and "load_bvecs_bvals e h (debug e ''searching for suitable gradient encoding...'' w)
           = (w1, Inl (Throw E))"
  shows "get_DW_scheme e h w =
       (display E 3 w1,
        Inl (Throw (Exception [''no diffusion encoding found in image '' @ [CHR 0x22] @ name h
                                 @ [CHR 0x22] @ '' or corresponding directory''])))
     \<and> displayed (display E 3 w1) = displayed w1 @ [(E, 3)]
     \<and> accessed (display E 3 w1) = accessed w1 \<and> reported (display E 3 w1) = reported w1"
  using assms
  by (simp add: get_DW_scheme_def get_DW_scheme_source_def Let_def display_fields
      Exception_msg_def)

text \<open>
  C1, as the code has it. When the first argument of the \<^verbatim>\<open>grad\<close> option ends in \<^verbatim>\<open>bvals\<close>
  or \<^verbatim>\<open>bvecs\<close>, the resolver runs the same load as without the option, on the header
  alone: the pair is looked for under the image's folder or the image's prefix, and any
  other path with one of the two endings gives the same result. The folder of the explicit
  path is not used.
\<close>

theorem get_DW_scheme_explicit_sidecar:
  assumes "get_options e ''grad'' = (path # args) # rest"
    and "has_suffix path ''bvals'' \<or> has_suffix path ''bvecs''"
    and "w0 = debug e ''searching for suitable gradient encoding...'' w"
    and "prefix = substr0 (name h) (find_last_of (name h) CHR ''.'')"
  shows "get_DW_scheme e h w =
       (case load_bvecs_bvals e h w0 of
          (w2, Inl err) \<Rightarrow> (w2, Inl err)
        | (w2, Inr grad) \<Rightarrow> get_DW_scheme_finish e grad w2)
     \<and> (\<forall>path'. has_suffix path' ''bvals'' \<or> has_suffix path' ''bvecs'' \<longrightarrow>
          get_DW_scheme (e\<lparr>get_options := (\<lambda>n. if n = ''grad'' then [[path']] else get_options e n)\<rparr>) h w
            = get_DW_scheme e h w)
     \<and> (\<exists>w1 bvals_path bvecs_path found_bvals found_bvecs.
          load_bvecs_bvals_locate e h w0 = (w1, bvals_path, bvecs_path, found_bvals, found_bvecs)
          \<and> ((bvals_path = Path_join e (Path_dirname e (name h)) ''bvals''
               \<and> bvecs_path = Path_join e (Path_dirname e (name h)) ''bvecs'')
              \<or> (bvals_path = prefix @ ''_bvals'' \<and> bvecs_path = prefix @ ''_bvecs'')))"
proof (intro conjI allI impI)
  show "get_DW_scheme e h w =
       (case load_bvecs_bvals e h w0 of
          (w2, Inl err) \<Rightarrow> (w2, Inl err)
        | (w2, Inr grad) \<Rightarrow> get_DW_scheme_finish e grad w2)"
    unfolding assms(3) by (rule get_DW_scheme_explicit[OF assms(1,2)])
next
  fix path'
  assume s: "has_suffix path' ''bvals'' \<or> has_suffix path' ''bvecs''"
  let ?e' = "e\<lparr>get_options := (\<lambda>n. if n = ''grad'' then [[path']] else get_options e n)\<rparr>"
  have "get_options ?e' ''grad'' = (path' # []) # []" by simp
  from get_DW_scheme_explicit[OF this s, of h w] get_DW_scheme_explicit[OF assms(1,2), of h w]
  show "get_DW_scheme ?e' h w = get_DW_scheme e h w"
    by (simp add: load_bvecs_bvals_ignores_options get_DW_scheme_finish_ignores_options
        debug_ignores_options cong: prod.case_cong sum.case_cong)
next
  show "\<exists>w1 bvals_path bvecs_path found_bvals found_bvecs.
          load_bvecs_bvals_locate e h w0 = (w1, bvals_path, bvecs_path, found_bvals, found_bvecs)
          \<and> ((bvals_path = Path_join e (Path_dirname e (name h)) ''bvals''
               \<and> bvecs_path = Path_join e (Path_dirname e (name h)) ''bvecs'')
              \<or> (bvals_path = prefix @ ''_bvals'' \<and> bvecs_path = prefix @ ''_bvecs''))"
    unfolding assms(4)
    by (simp add: load_bvecs_bvals_locate_def is_file_def Let_def)
qed

text \<open>
  C8, as the code has it. When the \<^verbatim>\<open>grad\<close> option is given, the scheme of the header has
  no effect on the result. When it is not given and the header has a scheme, that scheme
  is taken and no path is asked for or read. When the option's path ends in neither
  \<^verbatim>\<open>bvals\<close> nor \<^verbatim>\<open>bvecs\<close>, that path is the only one read. The sidecar pair is looked
  for in the two remaining cases: no option and no scheme in the header, or an option whose
  path ends in \<^verbatim>\<open>bvals\<close> or \<^verbatim>\<open>bvecs\<close>.
\<close>

theorem get_DW_scheme_precedence:
  "(get_options e ''grad'' \<noteq> [] \<longrightarrow>
      get_DW_scheme e (h\<lparr>DW_scheme := s\<rparr>) w = get_DW_scheme e h w)
   \<and> (\<forall>scheme. get_options e ''grad'' = [] \<and> DW_scheme h = Some scheme \<longrightarrow>
        get_DW_scheme e h w
          = get_DW_scheme_finish e scheme (debug e ''searching for suitable gradient encoding...'' w)
        \<and> accessed (fst (get_DW_scheme e h w)) = accessed w)
   \<and> (\<forall>path args rest.
        get_options e ''grad'' = (path # args) # rest
        \<and> \<not> has_suffix path ''bvals'' \<and> \<not> has_suffix path ''bvecs'' \<longrightarrow>
        accessed (fst (get_DW_scheme e h w)) = accessed w @ [path])
   \<and> (\<forall>path args rest.
        get_options e ''grad'' = (path # args) # rest
        \<and> (has_suffix path ''bvals'' \<or> has_suffix path ''bvecs'') \<longrightarrow>
        accessed (fst (get_DW_scheme e h w))
          = accessed (fst (load_bvecs_bvals e h
              (debug e ''searching for suitable gradient encoding...'' w))))
   \<and> (get_options e ''grad'' = [] \<and> DW_scheme h = None \<longrightarrow>
        accessed (fst (get_DW_scheme e h w))
          = accessed (fst (load_bvecs_bvals e h
              (debug e ''searching for suitable gradient encoding...'' w))))"
proof (intro conjI allI impI)
  assume "get_options e ''grad'' \<noteq> []"
  then obtain opt0 rest where o: "get_options e ''grad'' = opt0 # rest"
    by (cases "get_options e ''grad''") auto
  have "get_DW_scheme_source e (h\<lparr>DW_scheme := s\<rparr>) w' = get_DW_scheme_source e h w'" for w'
    by (cases opt0) (simp_all add: get_DW_scheme_source_def o load_bvecs_bvals_ignores_scheme)
  then show "get_DW_scheme e (h\<lparr>DW_scheme := s\<rparr>) w = get_DW_scheme e h w"
    by (simp add: get_DW_scheme_def)
next
  fix scheme
  assume a: "get_options e ''grad'' = [] \<and> DW_scheme h = Some scheme"
  then show "get_DW_scheme e h w
          = get_DW_scheme_finish e scheme (debug e ''searching for suitable gradient encoding...'' w)"
    by (simp add: get_DW_scheme_def get_DW_scheme_source_def)
  then show "accessed (fst (get_DW_scheme e h w)) = accessed w"
    by (simp add: get_DW_scheme_finish_accessed debug_fields)
next
  fix path args rest
  assume "get_options e ''grad'' = (path # args) # rest
        \<and> \<not> has_suffix path ''bvals'' \<and> \<not> has_suffix path ''bvecs''"
  then show "accessed (fst (get_DW_scheme e h w)) = accessed w @ [path]"
    by (simp add: get_DW_scheme_def get_DW_scheme_source_def load_def debug_fields
        get_DW_scheme_finish_accessed Let_def split: sum.splits)
next
  fix path args rest
  assume a: "get_options e ''grad'' = (path # args) # rest
        \<and> (has_suffix path ''bvals'' \<or> has_suffix path ''bvecs'')"
  then have "get_DW_scheme e h w =
       (case load_bvecs_bvals e h (debug e ''searching for suitable gradient encoding...'' w) of
          (w2, Inl err) \<Rightarrow> (w2, Inl err)
        | (w2, Inr grad) \<Rightarrow> get_DW_scheme_finish e grad w2)"
    using get_DW_scheme_explicit by blast
  then show "accessed (fst (get_DW_scheme e h w))
          = accessed (fst (load_bvecs_bvals e h
              (debug e ''searching for suitable gradient encoding...'' w)))"
    by (simp add: get_DW_scheme_finish_accessed split: prod.splits sum.splits)
next
  assume a: "get_options e ''grad'' = [] \<and> DW_scheme h = None"
  then show "accessed (fst (get_DW_scheme e h w))
          = accessed (fst (load_bvecs_bvals e h
              (debug e ''searching for suitable gradient encoding...'' w)))"
    by (simp add: get_DW_scheme_def get_DW_scheme_source_def get_DW_scheme_finish_accessed
        display_fields split: prod.splits sum.splits error.splits)
qed

lemmas get_defs =
  get_DW_scheme_def get_DW_scheme_source_def get_DW_scheme_finish_def debug_def inform_def
  report_to_user_func_def display_def has_suffix_def

lemma example_load_nothing:
  "load_bvecs_bvals (example_env [] []) (example_header None)
      (debug (example_env [] []) ''searching for suitable gradient encoding...'' empty_world)
     = (\<lparr>accessed = [''/data/bvals'', ''/data/bvecs'', ''/data/dwi_bvals'', ''/data/dwi_bvecs''],
         reported = [(''searching for suitable gradient encoding...'', 3)], displayed = []\<rparr>,
        Inl (Throw (Exception [''could not find either bvecs or bvals gradient files''])))"
  by (simp add: example_defs load_defs get_defs)

lemma example_get_nothing:
  "get_DW_scheme (example_env [] []) (example_header None) empty_world
     = (\<lparr>accessed = [''/data/bvals'', ''/data/bvecs'', ''/data/dwi_bvals'', ''/data/dwi_bvecs''],
         reported = [(''searching for suitable gradient encoding...'', 3)],
         displayed = [(Exception [''could not find either bvecs or bvals gradient files''], 3)]\<rparr>,
        Inl (Throw (Exception [''no diffusion encoding found in image '' @ [CHR 0x22]
                                 @ ''/data/dwi.mif'' @ [CHR 0x22]
                                 @ '' or corresponding directory''])))"
  by (simp add: example_defs load_defs get_defs)

lemma example_get_other_folder:
  "get_DW_scheme (example_env files_other_folder [[''/other/bvecs'']]) (example_header None)
      empty_world
     = (\<lparr>accessed = [''/data/bvals'', ''/data/bvecs'', ''/data/dwi_bvals'', ''/data/dwi_bvecs''],
         reported = [(''searching for suitable gradient encoding...'', 3)], displayed = []\<rparr>,
        Inl (Throw (Exception [''could not find either bvecs or bvals gradient files''])))"
  by (simp add: example_defs load_defs get_defs)

lemma example_get_explicit_plain:
  "get_DW_scheme (example_env files_plain [[''/other/bvecs'']]) (example_header scheme)
      empty_world
     = (\<lparr>accessed = [''/data/bvals'', ''/data/bvecs'', ''/data/bvals'', ''/data/bvecs''],
         reported = [(''searching for suitable gradient encoding...'', 3)], displayed = []\<rparr>,
        Inl (Throw (Exception [''unexpected diffusion encoding matrix dimensions''])))"
  by (simp add: example_defs load_defs get_defs upt_rec[of 0] upt_rec[of 1] eval_nat_numeral)

lemma example_get_embedded:
  "get_DW_scheme (example_env files_plain []) (example_header (Some example_scheme)) empty_world
     = (\<lparr>accessed = [],
         reported = [(''searching for suitable gradient encoding...'', 3)], displayed = []\<rparr>,
        Inl (Throw (Exception [''unexpected diffusion encoding matrix dimensions''])))"
  by (simp add: example_defs load_defs get_defs example_scheme_def)

lemma example_get_generic:
  "get_DW_scheme (example_env files_plain [[''/data/grad.b'']]) (example_header None) empty_world
     = (\<lparr>accessed = [''/data/grad.b''],
         reported = [(''searching for suitable gradient encoding...'', 3)], displayed = []\<rparr>,
        Inl (Throw (Exception [''cannot open file''])))"
  by (simp add: example_defs load_defs get_defs)

theorem get_DW_scheme_not_found_witness:
  "get_options (example_env [] []) ''grad'' = [] \<and> DW_scheme (example_header None) = None
   \<and> load_bvecs_bvals (example_env [] []) (example_header None)
        (debug (example_env [] []) ''searching for suitable gradient encoding...'' empty_world)
       = (\<lparr>accessed = [''/data/bvals'', ''/data/bvecs'', ''/data/dwi_bvals'', ''/data/dwi_bvecs''],
           reported = [(''searching for suitable gradient encoding...'', 3)], displayed = []\<rparr>,
          Inl (Throw (Exception [''could not find either bvecs or bvals gradient files''])))
   \<and> get_DW_scheme (example_env [] []) (example_header None) empty_world
       = (\<lparr>accessed = [''/data/bvals'', ''/data/bvecs'', ''/data/dwi_bvals'', ''/data/dwi_bvecs''],
           reported = [(''searching for suitable gradient encoding...'', 3)],
           displayed = [(Exception [''could not find either bvecs or bvals gradient files''], 3)]\<rparr>,
          Inl (Throw (Exception [''no diffusion encoding found in image '' @ [CHR 0x22]
                                   @ ''/data/dwi.mif'' @ [CHR 0x22]
                                   @ '' or corresponding directory''])))"
proof -
  have h1: "get_options (example_env [] []) ''grad'' = []" by (simp add: example_env_def)
  have h2: "DW_scheme (example_header None) = None" by (simp add: example_header_def)
  from get_DW_scheme_not_found[OF h1 h2 example_load_nothing]
  have "get_DW_scheme (example_env [] []) (example_header None) empty_world
       = (\<lparr>accessed = [''/data/bvals'', ''/data/bvecs'', ''/data/dwi_bvals'', ''/data/dwi_bvecs''],
           reported = [(''searching for suitable gradient encoding...'', 3)],
           displayed = [(Exception [''could not find either bvecs or bvals gradient files''], 3)]\<rparr>,
          Inl (Throw (Exception [''no diffusion encoding found in image '' @ [CHR 0x22]
                                   @ ''/data/dwi.mif'' @ [CHR 0x22]
                                   @ '' or corresponding directory''])))"
    by (simp add: display_def example_header_def)
  with h1 h2 example_load_nothing show ?thesis by blast
qed

lemmas seven_defs = example_header7_def example_bvals7_def example_bvecs7_def files_seven_def

lemma example_load_seven:
  "load_bvecs_bvals (example_env files_seven [[''/other/bvecs'']]) example_header7 w
     = (w\<lparr>accessed := accessed w @ [''/data/bvals'', ''/data/bvecs'', ''/data/bvals'', ''/data/bvecs'']\<rparr>,
        Inr \<lparr>columns = 4, elems =
          [[Num 0, Num 0, Num 0, Num 0],
           [Num 0, Num 1, Num 0, Num 1000],
           [Num (- 1), Num 0, Num 0, Num 1000],
           [Num 0, Num 0, Num 1, Num 1000],
           [Num 0, Num 2, Num 0, Num 2000],
           [Num (- 2), Num 0, Num 0, Num 2000],
           [Num 0, Num 0, Num 2, Num 2000]]\<rparr>)"
  by (simp add: example_defs seven_defs load_defs upt_rec[of 0] upt_rec[of 1] upt_rec[of 2]
      upt_rec[of 3] upt_rec[of 4] upt_rec[of 5] upt_rec[of 6] eval_nat_numeral)

lemma str_7_Suc: "str (Suc (Suc (Suc (Suc (Suc (Suc (Suc 0))))))) = ''7''"
  by (simp add: str_digit digit_def eval_nat_numeral)

lemma str_4: "str 4 = ''4''"
  by (simp add: str_digit digit_def)

text \<open>
  The whole resolution on the image of seven volumes, with an option that names a pair in
  another folder: the pair of the image's folder is read, rectified and normalised.
\<close>

lemma example_get_seven:
  "get_DW_scheme (example_env files_seven [[''/other/bvecs'']]) example_header7 empty_world
     = (\<lparr>accessed = [''/data/bvals'', ''/data/bvecs'', ''/data/bvals'', ''/data/bvecs''],
         reported = [(''searching for suitable gradient encoding...'', 3),
                     (''found 7x4 diffusion-weighted encoding'', 2)],
         displayed = []\<rparr>,
        Inr \<lparr>columns = 4, elems =
          [[Num 0, Num 0, Num 0, Num 0],
           [Num 0, Num 1, Num 0, Num 1000],
           [Num (- 1), Num 0, Num 0, Num 1000],
           [Num 0, Num 0, Num 1, Num 1000],
           [Num 0, Num 1, Num 0, Num 2000],
           [Num (- 1), Num 0, Num 0, Num 2000],
           [Num 0, Num 0, Num 1, Num 2000]]\<rparr>)"
proof -
  have o: "get_options (example_env files_seven [[''/other/bvecs'']]) ''grad'' = [[''/other/bvecs'']]"
    "log_level (example_env files_seven [[''/other/bvecs'']]) = 3"
    by (simp_all add: example_env_def)
  show ?thesis
    by (simp add: get_DW_scheme_def get_DW_scheme_source_def o has_suffix_def debug_def inform_def
        report_to_user_func_def example_load_seven get_DW_scheme_finish_def rows_def
        normalise_grad_def normalise_row_4 Math_norm_def nonzero_def Let_def str_7_Suc str_4
        empty_world_def Exception_msg_def round_value_simps example_rounding_env
        example_rounding)
qed

theorem get_DW_scheme_explicit_sidecar_witness:
  "get_options (example_env files_seven [[''/other/bvecs'']]) ''grad'' = (''/other/bvecs'' # []) # []
   \<and> (has_suffix ''/other/bvecs'' ''bvals'' \<or> has_suffix ''/other/bvecs'' ''bvecs'')
   \<and> ''/data/dwi'' = substr0 (name example_header7) (find_last_of (name example_header7) CHR ''.'')
   \<and> get_DW_scheme (example_env files_seven [[''/other/bvecs'']]) example_header7 empty_world
       = (case load_bvecs_bvals (example_env files_seven [[''/other/bvecs'']]) example_header7
                 (debug (example_env files_seven [[''/other/bvecs'']])
                    ''searching for suitable gradient encoding...'' empty_world) of
            (w2, Inl err) \<Rightarrow> (w2, Inl err)
          | (w2, Inr grad) \<Rightarrow>
              get_DW_scheme_finish (example_env files_seven [[''/other/bvecs'']]) grad w2)
   \<and> get_DW_scheme (example_env files_seven [[''/other/bvecs'']]) example_header7 empty_world
       = (\<lparr>accessed = [''/data/bvals'', ''/data/bvecs'', ''/data/bvals'', ''/data/bvecs''],
           reported = [(''searching for suitable gradient encoding...'', 3),
                       (''found 7x4 diffusion-weighted encoding'', 2)],
           displayed = []\<rparr>,
          Inr \<lparr>columns = 4, elems =
            [[Num 0, Num 0, Num 0, Num 0],
             [Num 0, Num 1, Num 0, Num 1000],
             [Num (- 1), Num 0, Num 0, Num 1000],
             [Num 0, Num 0, Num 1, Num 1000],
             [Num 0, Num 1, Num 0, Num 2000],
             [Num (- 1), Num 0, Num 0, Num 2000],
             [Num 0, Num 0, Num 1, Num 2000]]\<rparr>)
   \<and> (has_suffix ''/elsewhere/bvals'' ''bvals'' \<or> has_suffix ''/elsewhere/bvals'' ''bvecs'')
   \<and> get_DW_scheme
        (example_env files_seven [[''/other/bvecs'']]
           \<lparr>get_options := (\<lambda>n. if n = ''grad'' then [[''/elsewhere/bvals'']]
                                else get_options (example_env files_seven [[''/other/bvecs'']]) n)\<rparr>)
        example_header7 empty_world
       = get_DW_scheme (example_env files_seven [[''/other/bvecs'']]) example_header7 empty_world"
proof -
  have h1: "get_options (example_env files_seven [[''/other/bvecs'']]) ''grad''
              = (''/other/bvecs'' # []) # []"
    by (simp add: example_env_def)
  have h2: "has_suffix ''/other/bvecs'' ''bvals'' \<or> has_suffix ''/other/bvecs'' ''bvecs''"
    by (simp add: has_suffix_def)
  have h4: "''/data/dwi'' = substr0 (name example_header7)
                        (find_last_of (name example_header7) CHR ''.'')"
    by (simp add: example_defs seven_defs)
  have h5: "has_suffix ''/elsewhere/bvals'' ''bvals'' \<or> has_suffix ''/elsewhere/bvals'' ''bvecs''"
    by (simp add: has_suffix_def)
  note t = get_DW_scheme_explicit_sidecar[OF h1 h2 refl h4, of empty_world]
  from t have c: "get_DW_scheme (example_env files_seven [[''/other/bvecs'']]) example_header7
        empty_world
       = (case load_bvecs_bvals (example_env files_seven [[''/other/bvecs'']]) example_header7
                 (debug (example_env files_seven [[''/other/bvecs'']])
                    ''searching for suitable gradient encoding...'' empty_world) of
            (w2, Inl err) \<Rightarrow> (w2, Inl err)
          | (w2, Inr grad) \<Rightarrow>
              get_DW_scheme_finish (example_env files_seven [[''/other/bvecs'']]) grad w2)"
    by (rule conjunct1)
  from t h5 have c2: "get_DW_scheme
        (example_env files_seven [[''/other/bvecs'']]
           \<lparr>get_options := (\<lambda>n. if n = ''grad'' then [[''/elsewhere/bvals'']]
                                else get_options (example_env files_seven [[''/other/bvecs'']]) n)\<rparr>)
        example_header7 empty_world
       = get_DW_scheme (example_env files_seven [[''/other/bvecs'']]) example_header7 empty_world"
    by blast
  show ?thesis by (intro conjI h1 h2 h4 c example_get_seven h5 c2)
qed

text \<open>
  The claim C1 fails on this input: the option names \<^verbatim>\<open>/other/bvecs\<close>, both files of the
  pair exist in \<^verbatim>\<open>/other\<close>, the image is \<^verbatim>\<open>/data/dwi.mif\<close>. The resolver asks for four
  paths under \<^verbatim>\<open>/data\<close>, none under \<^verbatim>\<open>/other\<close>, and throws the load's exception.
\<close>

theorem get_DW_scheme_explicit_folder_unused:
  "get_options (example_env files_other_folder [[''/other/bvecs'']]) ''grad'' = [[''/other/bvecs'']]
   \<and> has_suffix ''/other/bvecs'' ''bvecs''
   \<and> Matrix_load (example_env files_other_folder [[''/other/bvecs'']]) ''/other/bvals''
       = Inr example_bvals
   \<and> Matrix_load (example_env files_other_folder [[''/other/bvecs'']]) ''/other/bvecs''
       = Inr example_bvecs
   \<and> get_DW_scheme (example_env files_other_folder [[''/other/bvecs'']]) (example_header None)
        empty_world
       = (\<lparr>accessed = [''/data/bvals'', ''/data/bvecs'', ''/data/dwi_bvals'', ''/data/dwi_bvecs''],
           reported = [(''searching for suitable gradient encoding...'', 3)], displayed = []\<rparr>,
          Inl (Throw (Exception [''could not find either bvecs or bvals gradient files''])))"
  using example_get_other_folder
  by (simp add: example_env_def files_other_folder_def has_suffix_def)

text \<open>
  The claim C8 fails on this input: the option is given, the header has a scheme, and the
  resolver looks for, and reads, the sidecar pair of the image's folder.
\<close>

theorem get_DW_scheme_discovery_with_explicit:
  "get_options (example_env files_plain [[''/other/bvecs'']]) ''grad'' \<noteq> []
   \<and> DW_scheme (example_header (Some example_scheme)) \<noteq> None
   \<and> accessed (fst (get_DW_scheme (example_env files_plain [[''/other/bvecs'']])
                        (example_header (Some example_scheme)) empty_world))
       = [''/data/bvals'', ''/data/bvecs'', ''/data/bvals'', ''/data/bvecs'']"
  by (simp add: example_get_explicit_plain) (simp add: example_env_def example_header_def)

theorem get_DW_scheme_precedence_witness:
  "get_options (example_env files_plain [[''/other/bvecs'']]) ''grad'' \<noteq> []
   \<and> get_DW_scheme (example_env files_plain [[''/other/bvecs'']])
        ((example_header None)\<lparr>DW_scheme := Some example_scheme\<rparr>) empty_world
       = get_DW_scheme (example_env files_plain [[''/other/bvecs'']]) (example_header None)
           empty_world
   \<and> get_options (example_env files_plain []) ''grad'' = []
   \<and> DW_scheme (example_header (Some example_scheme)) = Some example_scheme
   \<and> accessed (fst (get_DW_scheme (example_env files_plain [])
                        (example_header (Some example_scheme)) empty_world))
       = accessed empty_world
   \<and> get_options (example_env files_plain [[''/data/grad.b'']]) ''grad''
       = (''/data/grad.b'' # []) # []
   \<and> \<not> has_suffix ''/data/grad.b'' ''bvals'' \<and> \<not> has_suffix ''/data/grad.b'' ''bvecs''
   \<and> accessed (fst (get_DW_scheme (example_env files_plain [[''/data/grad.b'']])
                        (example_header None) empty_world))
       = accessed empty_world @ [''/data/grad.b'']
   \<and> get_options (example_env files_seven [[''/other/bvecs'']]) ''grad''
       = (''/other/bvecs'' # []) # []
   \<and> (has_suffix ''/other/bvecs'' ''bvals'' \<or> has_suffix ''/other/bvecs'' ''bvecs'')
   \<and> accessed (fst (get_DW_scheme (example_env files_seven [[''/other/bvecs'']])
                        example_header7 empty_world))
       = accessed (fst (load_bvecs_bvals (example_env files_seven [[''/other/bvecs'']])
                          example_header7
                          (debug (example_env files_seven [[''/other/bvecs'']])
                             ''searching for suitable gradient encoding...'' empty_world)))
   \<and> get_options (example_env [] []) ''grad'' = [] \<and> DW_scheme (example_header None) = None
   \<and> accessed (fst (get_DW_scheme (example_env [] []) (example_header None) empty_world))
       = accessed (fst (load_bvecs_bvals (example_env [] []) (example_header None)
                          (debug (example_env [] [])
                             ''searching for suitable gradient encoding...'' empty_world)))"
proof -
  have h1: "get_options (example_env files_plain [[''/other/bvecs'']]) ''grad'' \<noteq> []"
    by (simp add: example_env_def)
  have h2: "get_options (example_env files_plain []) ''grad'' = []"
    "DW_scheme (example_header (Some example_scheme)) = Some example_scheme"
    by (simp_all add: example_env_def example_header_def)
  have h3: "get_options (example_env files_plain [[''/data/grad.b'']]) ''grad''
              = (''/data/grad.b'' # []) # []"
    "\<not> has_suffix ''/data/grad.b'' ''bvals''" "\<not> has_suffix ''/data/grad.b'' ''bvecs''"
    by (simp_all add: example_env_def has_suffix_def)
  have h4: "get_options (example_env files_seven [[''/other/bvecs'']]) ''grad''
              = (''/other/bvecs'' # []) # []"
    "has_suffix ''/other/bvecs'' ''bvals'' \<or> has_suffix ''/other/bvecs'' ''bvecs''"
    by (simp_all add: example_env_def has_suffix_def)
  have h5: "get_options (example_env [] []) ''grad'' = []" "DW_scheme (example_header None) = None"
    by (simp_all add: example_env_def example_header_def)
  from get_DW_scheme_precedence[where e = "example_env files_plain [[''/other/bvecs'']]"
      and h = "example_header None" and s = "Some example_scheme" and w = empty_world] h1
  have c1: "get_DW_scheme (example_env files_plain [[''/other/bvecs'']])
        ((example_header None)\<lparr>DW_scheme := Some example_scheme\<rparr>) empty_world
       = get_DW_scheme (example_env files_plain [[''/other/bvecs'']]) (example_header None)
           empty_world"
    by blast
  from get_DW_scheme_precedence[where e = "example_env files_plain []"
      and h = "example_header (Some example_scheme)" and s = None and w = empty_world] h2
  have c2: "accessed (fst (get_DW_scheme (example_env files_plain [])
                        (example_header (Some example_scheme)) empty_world))
       = accessed empty_world"
    by blast
  from get_DW_scheme_precedence[where e = "example_env files_plain [[''/data/grad.b'']]"
      and h = "example_header None" and s = None and w = empty_world] h3
  have c3: "accessed (fst (get_DW_scheme (example_env files_plain [[''/data/grad.b'']])
                        (example_header None) empty_world))
       = accessed empty_world @ [''/data/grad.b'']"
    by blast
  from get_DW_scheme_precedence[where e = "example_env files_seven [[''/other/bvecs'']]"
      and h = example_header7 and s = None and w = empty_world] h4
  have c4: "accessed (fst (get_DW_scheme (example_env files_seven [[''/other/bvecs'']])
                        example_header7 empty_world))
       = accessed (fst (load_bvecs_bvals (example_env files_seven [[''/other/bvecs'']])
                          example_header7
                          (debug (example_env files_seven [[''/other/bvecs'']])
                             ''searching for suitable gradient encoding...'' empty_world)))"
    by blast
  from get_DW_scheme_precedence[where e = "example_env [] []"
      and h = "example_header None" and s = None and w = empty_world] h5
  have c5: "accessed (fst (get_DW_scheme (example_env [] []) (example_header None) empty_world))
       = accessed (fst (load_bvecs_bvals (example_env [] []) (example_header None)
                          (debug (example_env [] [])
                             ''searching for suitable gradient encoding...'' empty_world)))"
    by blast
  show ?thesis by (intro conjI h1 c1 h2 c2 h3 c3 h4 c4 h5 c5)
qed

end
